theory Spec2Isabelle
  imports Complex_Main
begin

section \<open>Conventions of the embedding\<close>

text \<open>
  The development embeds the sampling logic of \<^verbatim>\<open>desktop_sampler.py\<close>.
  Python floats are modelled as exact reals (the rounding of binary floating point is
  not modelled), Python ints as \<open>int\<close>, counts that the code obtains from \<open>len\<close> or
  from a \<^verbatim>\<open>\d+\<close> match as \<open>nat\<close>. Strings are byte strings. Every remote command
  (adb, trace processor) is an input of the model: its outcome, already matched by the
  regular expression the code applies to it, is a parameter, and an exception it raises
  is a value of that parameter.
\<close>

subsection \<open>Outcomes of remote commands\<close>

text \<open>The outcome of a remote command followed by its parser, inside one \<^verbatim>\<open>try\<close>.\<close>

datatype 'a outcome = Raises | Returns 'a

subsection \<open>String helpers\<close>

definition isspace :: "char \<Rightarrow> bool" where
  \<comment> \<open>ASCII white space, what \<^verbatim>\<open>str.strip()\<close> removes\<close>
  "isspace c = (c \<in> set [CHR '' '', CHR 0x09, CHR 0x0A, CHR 0x0B, CHR 0x0C, CHR 0x0D,
                          CHR 0x1C, CHR 0x1D, CHR 0x1E, CHR 0x1F])"

definition strip :: "string \<Rightarrow> string" where
  "strip s = rev (dropWhile isspace (rev (dropWhile isspace s)))"

fun replace_quote :: "string \<Rightarrow> string" where
  \<comment> \<open>\<^verbatim>\<open>s.replace("'", "''")\<close>\<close>
  "replace_quote [] = []"
| "replace_quote (c # cs) =
     (if c = CHR 0x27 then CHR 0x27 # CHR 0x27 # replace_quote cs else c # replace_quote cs)"

definition sql_quote :: "string \<Rightarrow> string" where
  "sql_quote s = [CHR 0x27] @ replace_quote s @ [CHR 0x27]"

section \<open>Offline strategy: querying a captured trace\<close>

text \<open>
  The diagnostic strings of the offline query are f-strings over fixed (partly non-ASCII)
  templates; each template is a constructor that carries the values the code formats
  into it.
\<close>

datatype perf_detail =
    TraceFileMissing
  | NoFrameTimelineTable
  | FtraceDetail string
  | SpanDetail string string nat int
      \<comment> \<open>\<^verbatim>\<open>table={table} filter={human} count={cnt} spanMs={span_ms}\<close>\<close>
  | DurDetail string string nat int
      \<comment> \<open>\<^verbatim>\<open>table={table} filter={human} count={cnt} durMs={duration_ms}\<close>\<close>
  | ZeroCountDetail nat
      \<comment> \<open>count is 0, with the unfiltered total \<^verbatim>\<open>{cnt0}\<close>\<close>
  | QueryFailedDetail
  | TpUnavailable

datatype query_result =
    QRaise                  \<comment> \<open>the trace processor call raised\<close>
  | QNoMatch                \<comment> \<open>the output has no \<^verbatim>\<open>(\d+)\|(\d+)\|(\d+)\<close>\<close>
  | QStats nat nat nat      \<comment> \<open>count, min(ts), max(ts)\<close>

datatype py_error = TraceProcessorError | AdbError | OtherError

record trace_env =
  trace_exists :: bool
  tables :: "string list outcome"
    \<comment> \<open>the cleaned names from the \<^verbatim>\<open>sqlite_master\<close> query\<close>
  ftrace_slice_fps :: "real option \<times> perf_detail"
    \<comment> \<open>what \<^verbatim>\<open>_ftrace_slice_fps\<close> returns on this trace\<close>
  table_cols :: "string \<Rightarrow> string list outcome"
    \<comment> \<open>the column names parsed from \<^verbatim>\<open>pragma table_info\<close>\<close>
  tp_stats :: "string \<Rightarrow> query_result"
    \<comment> \<open>the SQL text of a count query to the match on its output\<close>

definition prefer_tables :: "string list" where
  "prefer_tables = [''actual_frame_timeline_slice'', ''frame_timeline_slice'',
             ''android_frame_timeline_slice'', ''expected_frame_timeline_slice'']"

definition choose_table :: "string list \<Rightarrow> string" where
  \<comment> \<open>\<^verbatim>\<open>next((t for t in prefer if t in tables), tables[0])\<close>, on a non-empty list\<close>
  "choose_table tbls = (case filter (\<lambda>t. t \<in> set tbls) prefer_tables of t # _ \<Rightarrow> t | [] \<Rightarrow> hd tbls)"

definition query_sql :: "string \<Rightarrow> string list \<Rightarrow> string \<Rightarrow> string" where
  "query_sql table cols where_sql =
     (if ''ts'' \<in> set cols
      then ''select printf('%d|%d|%d', count(*), min(ts), max(ts)) from '' @ table @ where_sql @ '';''
      else ''select printf('%d|0|0', count(*)) from '' @ table @ where_sql @ '';'')"

fun add_cands :: "string list \<Rightarrow> string list \<Rightarrow> string list" where
  \<comment> \<open>the loop that strips each candidate and appends it unless empty or already there\<close>
  "add_cands cands [] = cands"
| "add_cands cands (x # xs) =
     (let s = strip x
      in if s \<noteq> [] \<and> s \<notin> set cands then add_cands (cands @ [s]) xs else add_cands cands xs)"

type_synonym filter_entry = "string \<times> string \<times> string"
  \<comment> \<open>key, \<^verbatim>\<open>where_sql\<close>, human-readable name\<close>

definition layer_eq :: "string \<Rightarrow> filter_entry" where
  "layer_eq c = (''layer_name'', '' where layer_name = '' @ sql_quote c, ''layer_eq='' @ c)"

definition layer_like :: "string \<Rightarrow> filter_entry" where
  "layer_like c =
     (''layer_name'', '' where layer_name like '' @ sql_quote (''%'' @ c @ ''%''), ''layer_like='' @ c)"

definition pkg_like :: "string \<Rightarrow> filter_entry" where
  "pkg_like pkg =
     (''layer_name'', '' where layer_name like '' @ sql_quote (''%'' @ pkg @ ''%''), ''pkg_like='' @ pkg)"

definition name_like :: "string \<Rightarrow> filter_entry" where
  "name_like pkg = (''name'', '' where name like '' @ sql_quote (''%'' @ pkg @ ''%''), ''name_like='' @ pkg)"

definition unfiltered :: filter_entry where
  "unfiltered = (''-'', '''', ''unfiltered'')"

definition build_filters ::
  "string list \<Rightarrow> string option \<Rightarrow> string list \<Rightarrow> string \<Rightarrow> filter_entry list" where
  "build_filters cols layer_hint layer_candidates pkg =
     (let filters0 = [];
          filters1 =
            (if ''layer_name'' \<in> set cols then
               (let cands = add_cands [] ((case layer_hint of None \<Rightarrow> [] | Some h \<Rightarrow> h) # layer_candidates);
                    f1 = foldl (\<lambda>fs c. fs @ [layer_eq c]) filters0 (take 10 cands);
                    f2 = foldl (\<lambda>fs c. fs @ [layer_like c]) f1 (take 10 cands)
                in if pkg \<noteq> [] then f2 @ [pkg_like pkg] else f2)
             else if ''name'' \<in> set cols \<and> pkg \<noteq> [] then filters0 @ [name_like pkg]
             else filters0)
      in filters1 @ [unfiltered])"

definition fps_of_stats ::
  "string \<Rightarrow> string \<Rightarrow> int \<Rightarrow> nat \<Rightarrow> nat \<Rightarrow> nat \<Rightarrow> real \<times> perf_detail" where
  \<comment> \<open>the body of the loop once a filter has a positive count\<close>
  "fps_of_stats table human duration_ms cnt min_ts max_ts =
     (let span_s = (if max_ts > min_ts \<and> min_ts > 0 then (real max_ts - real min_ts) / 1000000000 else 0)
      in if span_s > 0
         then (real cnt / span_s, SpanDetail table human cnt \<lfloor>span_s * 1000\<rfloor>)
         else (real cnt * 1000 / real_of_int (max 1 duration_ms), DurDetail table human cnt duration_ms))"

fun try_filters ::
  "(string \<Rightarrow> query_result) \<Rightarrow> string \<Rightarrow> string list \<Rightarrow> int \<Rightarrow> (nat \<times> nat \<times> nat) option \<Rightarrow>
   filter_entry list \<Rightarrow> py_error + ((nat \<times> nat \<times> nat) option \<times> (real \<times> perf_detail) option)" where
  \<comment> \<open>the loop over \<^verbatim>\<open>filters\<close>; returns \<^verbatim>\<open>unfiltered_stats\<close> and \<^verbatim>\<open>best\<close>\<close>
  "try_filters q table cols duration_ms unfiltered_stats [] = Inr (unfiltered_stats, None)"
| "try_filters q table cols duration_ms unfiltered_stats ((key, where_sql, human) # rest) =
     (case q (query_sql table cols where_sql) of
        QRaise \<Rightarrow> Inl TraceProcessorError
      | QNoMatch \<Rightarrow> try_filters q table cols duration_ms unfiltered_stats rest
      | QStats cnt min_ts max_ts \<Rightarrow>
          (let unfiltered_stats' =
                 (if where_sql = [] then Some (cnt, min_ts, max_ts) else unfiltered_stats)
           in if cnt \<le> 0 then try_filters q table cols duration_ms unfiltered_stats' rest
              else Inr (unfiltered_stats', Some (fps_of_stats table human duration_ms cnt min_ts max_ts))))"

definition perfetto_fps_from_trace ::
  "trace_env \<Rightarrow> string \<Rightarrow> int \<Rightarrow> string option \<Rightarrow> string list \<Rightarrow>
   py_error + (real option \<times> perf_detail)" where
  "perfetto_fps_from_trace env target_pkg duration_ms layer_hint layer_candidates =
     (if \<not> trace_exists env then Inr (None, TraceFileMissing)
      else (case tables env of
              Raises \<Rightarrow> Inl TraceProcessorError
            | Returns tbls \<Rightarrow>
                (if tbls = [] then
                   (case ftrace_slice_fps env of
                      (Some fps_ftrace, detail_ftrace) \<Rightarrow> Inr (Some fps_ftrace, detail_ftrace)
                    | (None, _) \<Rightarrow> Inr (None, NoFrameTimelineTable))
                 else
                   (let table = choose_table tbls
                    in case table_cols env table of
                         Raises \<Rightarrow> Inl TraceProcessorError
                       | Returns cols \<Rightarrow>
                           (let pkg = strip target_pkg;
                                filters = build_filters cols layer_hint layer_candidates pkg
                            in case try_filters (tp_stats env) table cols duration_ms None filters of
                                 Inl e \<Rightarrow> Inl e
                               | Inr (unfiltered_stats, None) \<Rightarrow>
                                   (case unfiltered_stats of
                                      Some (cnt0, _, _) \<Rightarrow> Inr (None, ZeroCountDetail cnt0)
                                    | None \<Rightarrow> Inr (None, QueryFailedDetail))
                               | Inr (_, Some (fps, detail)) \<Rightarrow> Inr (Some fps, detail))))))"

section \<open>Streaming strategy: counting frame events in an atrace dump\<close>

datatype fps_method = Unknown | AtraceMarker | AtraceVsync | NoEvents

record atrace_dump =
  mark_matches :: "(real \<times> string) list"
    \<comment> \<open>timestamp and stripped marker of each \<^verbatim>\<open>_ATRACE_MARK_RE\<close> match, in order\<close>
  vsync_matches :: "real list"
    \<comment> \<open>timestamp of each \<^verbatim>\<open>_VSYNC_RE\<close> match, in order\<close>

definition FRAME_MARKERS :: "string list" where
  "FRAME_MARKERS = [''queueBuffer'', ''eglSwapBuffers'', ''eglSwapBuffersWithDamageKHR'']"

definition frame_timestamps :: "atrace_dump \<Rightarrow> real \<Rightarrow> real list \<times> fps_method" where
  \<comment> \<open>methods A and B: the list \<^verbatim>\<open>timestamps\<close> and the method that filled it\<close>
  "frame_timestamps dump since_ts =
     (let tsA = map fst (filter (\<lambda>(ts, marker). marker \<in> set FRAME_MARKERS \<and> ts > since_ts)
                           (mark_matches dump))
      in if tsA \<noteq> [] then (tsA, AtraceMarker)
         else (let tsB = filter (\<lambda>ts. ts > since_ts) (vsync_matches dump)
               in (tsB, if tsB \<noteq> [] then AtraceVsync else Unknown)))"

fun dedup_loop :: "real list \<Rightarrow> real list \<Rightarrow> real list" where
  \<comment> \<open>\<^verbatim>\<open>for t in timestamps[1:]: if t - deduped[-1] > 0.002: deduped.append(t)\<close>\<close>
  "dedup_loop deduped [] = deduped"
| "dedup_loop deduped (t # ts) =
     (if t - last deduped > 2 / 1000 then dedup_loop (deduped @ [t]) ts else dedup_loop deduped ts)"

definition dedup_timestamps :: "real list \<Rightarrow> real list" where
  \<comment> \<open>the list \<^verbatim>\<open>deduped\<close> built from a non-empty \<^verbatim>\<open>timestamps\<close>\<close>
  "dedup_timestamps timestamps =
     (case sort timestamps of [] \<Rightarrow> [] | t0 # rest \<Rightarrow> dedup_loop [t0] rest)"

definition count_frame_events :: "atrace_dump \<Rightarrow> real \<Rightarrow> nat \<times> real \<times> real \<times> fps_method" where
  "count_frame_events dump since_ts =
     (let (timestamps, method) = frame_timestamps dump since_ts
      in if timestamps = [] then (0, 0, 0, NoEvents)
         else (let deduped = dedup_timestamps timestamps
               in (length deduped, hd deduped, last deduped, method)))"

section \<open>The background frame-rate worker\<close>

datatype bg_mode = ModeUnset | ModeAtrace | ModePerfetto

datatype bg_detail =
    NoDetail
  | AtraceSpan fps_method nat real    \<comment> \<open>\<^verbatim>\<open>{method} frames={frame_count} span={span_s:.3f}s\<close>\<close>
  | AtraceOneSecond fps_method nat    \<comment> \<open>\<^verbatim>\<open>{method} frames={frame_count} span=~1s\<close>\<close>
  | PerfettoDetail perf_detail

record bg_worker =
  latest_fps :: "real option"
  latest_fps_at_ms :: int
  latest_detail :: bg_detail
  sample_count :: nat
  bg_target_pkg :: string
  bg_layer_hint :: string
  bg_layer_candidates :: "string list"
  bg_sampling_ms :: int
  bg_enabled :: bool
  mode :: bg_mode
  atrace_running :: bool
    \<comment> \<open>whether the remote async atrace is started and not yet stopped\<close>
  thread_done :: bool
    \<comment> \<open>whether \<^verbatim>\<open>_loop\<close> has returned\<close>
  last_max_ts :: real
  consecutive_empty :: nat

definition new_worker :: bg_worker where
  "new_worker = \<lparr>latest_fps = None, latest_fps_at_ms = 0, latest_detail = NoDetail,
     sample_count = 0, bg_target_pkg = [], bg_layer_hint = [], bg_layer_candidates = [],
     bg_sampling_ms = 1000, bg_enabled = False, mode = ModeUnset, atrace_running = False,
     thread_done = False, last_max_ts = 0, consecutive_empty = 0\<rparr>"

definition configure ::
  "string \<Rightarrow> string \<Rightarrow> string list \<Rightarrow> int \<Rightarrow> bool \<Rightarrow> bg_worker \<Rightarrow> bg_worker" where
  "configure target_pkg layer_hint layer_candidates sampling_ms enabled w =
     w\<lparr>bg_target_pkg := target_pkg, bg_layer_hint := layer_hint,
       bg_layer_candidates := layer_candidates, bg_sampling_ms := sampling_ms,
       bg_enabled := enabled\<rparr>"

definition read_latest :: "bg_worker \<Rightarrow> real option \<times> int \<times> bg_detail" where
  "read_latest w = (latest_fps w, latest_fps_at_ms w, latest_detail w)"

text \<open>
  One turn of the worker's loop sees: whether the stop event is set, the wall clock, and
  the outcome of the remote call the turn makes (the dump in streaming mode, a whole
  capture-pull-analyse in offline mode; \<open>None\<close> when the call raises).
\<close>

record bg_turn =
  stop_set :: bool
  turn_now_ms :: int
  dump_outcome :: "atrace_dump option"
  perfetto_outcome :: "(real option \<times> perf_detail) option"

definition atrace_stop :: "bg_worker \<Rightarrow> bg_worker" where
  "atrace_stop w = w\<lparr>atrace_running := False\<rparr>"

definition loop_perfetto_turn :: "bg_turn \<Rightarrow> bg_worker \<Rightarrow> bg_worker" where
  "loop_perfetto_turn t w =
     (if stop_set t then w\<lparr>thread_done := True\<rparr>
      else if \<not> bg_enabled w \<or> bg_target_pkg w = [] then w
      else (case perfetto_outcome t of
              None \<Rightarrow> w
            | Some (fps, detail) \<Rightarrow>
                (let w1 = (case fps of
                             Some f \<Rightarrow> if f \<ge> 0
                                       then w\<lparr>latest_fps := Some f, latest_fps_at_ms := turn_now_ms t,
                                              latest_detail := PerfettoDetail detail\<rparr>
                                       else w
                           | None \<Rightarrow> w)
                 in w1\<lparr>sample_count := sample_count w1 + 1\<rparr>)))"

definition switch_to_perfetto :: "bg_worker \<Rightarrow> bg_worker" where
  \<comment> \<open>\<^verbatim>\<open>self._atrace_stop(); self._mode = "perfetto"; self._loop_perfetto(); return\<close>\<close>
  "switch_to_perfetto w = (atrace_stop w)\<lparr>mode := ModePerfetto\<rparr>"

definition loop_atrace_turn :: "bg_turn \<Rightarrow> bg_worker \<Rightarrow> bg_worker" where
  "loop_atrace_turn t w =
     (if stop_set t then (atrace_stop w)\<lparr>thread_done := True\<rparr>
      else if \<not> bg_enabled w \<or> bg_target_pkg w = [] then w
      else (case dump_outcome t of
              None \<Rightarrow>
                (let w1 = w\<lparr>consecutive_empty := consecutive_empty w + 1\<rparr>
                 in if consecutive_empty w1 \<ge> 5 then switch_to_perfetto w1 else w1)
            | Some dump \<Rightarrow>
                (let (frame_count, min_ts, max_ts, method) = count_frame_events dump (last_max_ts w)
                 in if frame_count > 0 \<and> max_ts > min_ts then
                      (let span_s = max_ts - min_ts;
                           fps = (if span_s > 5 / 100 then real frame_count / span_s else real frame_count)
                       in w\<lparr>last_max_ts := max_ts, consecutive_empty := 0,
                            latest_fps := Some fps, latest_fps_at_ms := turn_now_ms t,
                            latest_detail := AtraceSpan method frame_count span_s,
                            sample_count := sample_count w + 1\<rparr>)
                    else if frame_count > 0 then
                      (let fps = real frame_count
                       in w\<lparr>last_max_ts := (if max_ts > 0 then max_ts else last_max_ts w),
                            consecutive_empty := 0,
                            latest_fps := Some fps, latest_fps_at_ms := turn_now_ms t,
                            latest_detail := AtraceOneSecond method frame_count,
                            sample_count := sample_count w + 1\<rparr>)
                    else
                      (let w1 = w\<lparr>consecutive_empty := consecutive_empty w + 1\<rparr>
                       in if consecutive_empty w1 \<ge> 10 then switch_to_perfetto w1 else w1))))"

definition loop_start :: "bool \<Rightarrow> bg_worker \<Rightarrow> bg_worker" where
  \<comment> \<open>the head of \<^verbatim>\<open>_loop\<close> once the worker is enabled: \<^verbatim>\<open>_atrace_start\<close> succeeded or not\<close>
  "loop_start atrace_ok w =
     (if atrace_ok then w\<lparr>mode := ModeAtrace, atrace_running := True, last_max_ts := 0, consecutive_empty := 0\<rparr>
      else w\<lparr>mode := ModePerfetto\<rparr>)"

definition loop_turn :: "bg_turn \<Rightarrow> bg_worker \<Rightarrow> bg_worker" where
  "loop_turn t w =
     (if thread_done w then w
      else if mode w = ModeAtrace then loop_atrace_turn t w
      else loop_perfetto_turn t w)"

fun run_turns :: "bg_turn list \<Rightarrow> bg_worker \<Rightarrow> bg_worker" where
  "run_turns [] w = w"
| "run_turns (t # ts) w = run_turns ts (loop_turn t w)"

section \<open>Rate state of the sampler loop\<close>

record GfxState =
  gfx_prev_total :: "int option"
  gfx_prev_janky :: "int option"
  gfx_prev_t_ms :: "int option"
  gfx_no_frame_streak :: nat
  gfx_fail_streak :: nat
  gfx_disabled :: bool

record SfLatencyState =
  sf_layer :: "string option"
  sf_prev_max_present_ns :: "int option"
  sf_prev_t_ms :: "int option"
  sf_last_layer_update_ms :: int
  sf_no_frame_streak :: nat
  sf_fail_streak :: nat
  sf_disabled :: bool

record CpuState =
  cpu_prev_ticks :: "int option"
  cpu_prev_t_ms :: "int option"

record CpuTotalState =
  ct_prev_total :: "int option"
  ct_prev_idle :: "int option"

record NetState =
  net_prev_rx_bytes :: "real option"
  net_prev_tx_bytes :: "real option"
  net_prev_t_ms :: "int option"

definition new_GfxState :: GfxState where
  "new_GfxState = \<lparr>gfx_prev_total = None, gfx_prev_janky = None, gfx_prev_t_ms = None,
     gfx_no_frame_streak = 0, gfx_fail_streak = 0, gfx_disabled = False\<rparr>"

definition new_SfLatencyState :: SfLatencyState where
  "new_SfLatencyState = \<lparr>sf_layer = None, sf_prev_max_present_ns = None, sf_prev_t_ms = None,
     sf_last_layer_update_ms = 0, sf_no_frame_streak = 0, sf_fail_streak = 0, sf_disabled = False\<rparr>"

definition new_CpuState :: CpuState where
  "new_CpuState = \<lparr>cpu_prev_ticks = None, cpu_prev_t_ms = None\<rparr>"

definition new_CpuTotalState :: CpuTotalState where
  "new_CpuTotalState = \<lparr>ct_prev_total = None, ct_prev_idle = None\<rparr>"

definition new_NetState :: NetState where
  "new_NetState = \<lparr>net_prev_rx_bytes = None, net_prev_tx_bytes = None, net_prev_t_ms = None\<rparr>"

subsection \<open>Total CPU\<close>

definition parse_cpu_total ::
  "(string \<Rightarrow> int option) \<Rightarrow> string list \<Rightarrow> CpuTotalState \<Rightarrow> real option \<times> CpuTotalState" where
  \<comment> \<open>\<open>parts\<close> is \<^verbatim>\<open>stat_line.split()\<close>; \<open>py_int\<close> is \<^verbatim>\<open>int\<close>, \<open>None\<close> where it raises\<close>
  "parse_cpu_total py_int parts prev_state =
     (if length parts < 8 \<or> hd parts \<noteq> ''cpu'' then (None, prev_state)
      else (let parsed = map py_int (take 7 (tl parts))
            in if None \<in> set parsed then (None, prev_state)
               else (let vals = map the parsed;
                         total = sum_list vals;
                         idle = vals ! 3;
                         pct = (case (ct_prev_total prev_state, ct_prev_idle prev_state) of
                                  (Some prev_total, Some prev_idle) \<Rightarrow>
                                    (let d_total = total - prev_total;
                                         d_idle = idle - prev_idle
                                     in if d_total > 0
                                        then Some (max 0 (min 100
                                               ((1 - real_of_int d_idle / real_of_int d_total) * 100)))
                                        else None)
                                | _ \<Rightarrow> None)
                     in (pct, prev_state\<lparr>ct_prev_total := Some total, ct_prev_idle := Some idle\<rparr>))))"

subsection \<open>Process CPU\<close>

definition sample_pid_and_cpu ::
  "bool \<Rightarrow> bool \<Rightarrow> int \<Rightarrow> int \<Rightarrow> int \<Rightarrow> string option outcome \<Rightarrow> int option outcome \<Rightarrow>
   CpuState \<Rightarrow> (string option \<times> real option) \<times> CpuState" where
  \<comment> \<open>\<open>pidof\<close>: the first token of \<^verbatim>\<open>pidof\<close>'s output, if any; \<open>stat\<close>: what
      \<^verbatim>\<open>_parse_proc_stat_ticks\<close> gives on the first line of \<^verbatim>\<open>/proc/pid/stat\<close>\<close>
  "sample_pid_and_cpu want_cpu want_pss now_ms hz cores pidof stat cpu_state =
     (if \<not> (want_cpu \<or> want_pss) then ((None, None), cpu_state)
      else (case pidof of
              Raises \<Rightarrow> ((None, None), cpu_state)
            | Returns pid \<Rightarrow>
                (if pid \<noteq> None \<and> pid \<noteq> Some [] \<and> want_cpu then
                   (case stat of
                      Raises \<Rightarrow> ((pid, None), cpu_state)
                    | Returns None \<Rightarrow> ((pid, None), cpu_state)
                    | Returns (Some ticks) \<Rightarrow>
                        (let cpu_pct =
                               (case (cpu_prev_ticks cpu_state, cpu_prev_t_ms cpu_state) of
                                  (Some prev_ticks, Some prev_t_ms) \<Rightarrow>
                                    (let dt_ms = max 1 (now_ms - prev_t_ms);
                                         dt_ticks = max 0 (ticks - prev_ticks);
                                         cpu_sec = real_of_int dt_ticks / real_of_int (max 1 hz);
                                         wall_sec = real_of_int dt_ms / 1000;
                                         pct = cpu_sec / (wall_sec * real_of_int cores) * 100
                                     in Some (max 0 (min 100 pct)))
                                | _ \<Rightarrow> None)
                         in ((pid, cpu_pct),
                             cpu_state\<lparr>cpu_prev_ticks := Some ticks, cpu_prev_t_ms := Some now_ms\<rparr>)))
                 else ((pid, None), cpu_state))))"

subsection \<open>Network throughput\<close>

definition sample_net ::
  "bool \<Rightarrow> int \<Rightarrow> (real \<times> real) option outcome \<Rightarrow> NetState \<Rightarrow> (real \<times> real) option \<times> NetState" where
  \<comment> \<open>\<open>raw\<close>: the two byte totals of \<^verbatim>\<open>_parse_net_stats\<close>, absent when both are zero;
      the result is \<^verbatim>\<open>net_rx_kbps\<close> and \<^verbatim>\<open>net_tx_kbps\<close>, or the empty dict\<close>
  "sample_net want_net now_ms raw net_state =
     (if \<not> want_net then (None, net_state)
      else (case raw of
              Raises \<Rightarrow> (None, net_state)
            | Returns None \<Rightarrow> (None, net_state)
            | Returns (Some (rx_bytes, tx_bytes)) \<Rightarrow>
                (case (net_prev_rx_bytes net_state, net_prev_t_ms net_state) of
                   (Some prev_rx, Some prev_t_ms) \<Rightarrow>
                     (case net_prev_tx_bytes net_state of
                        None \<Rightarrow> (None, net_state)
                      | Some prev_tx \<Rightarrow>
                          (let dt_ms = max 1 (now_ms - prev_t_ms);
                               dt_s = real_of_int dt_ms / 1000;
                               d_rx = max 0 (rx_bytes - prev_rx);
                               d_tx = max 0 (tx_bytes - prev_tx)
                           in (Some ((d_rx / 1024) / dt_s * 8, (d_tx / 1024) / dt_s * 8),
                               \<lparr>net_prev_rx_bytes = Some rx_bytes, net_prev_tx_bytes = Some tx_bytes,
                                net_prev_t_ms = Some now_ms\<rparr>)))
                 | _ \<Rightarrow> (None, \<lparr>net_prev_rx_bytes = Some rx_bytes, net_prev_tx_bytes = Some tx_bytes,
                               net_prev_t_ms = Some now_ms\<rparr>))))"

subsection \<open>Frame rate of a cycle\<close>

type_synonym latest = "real option \<times> int"
  \<comment> \<open>the rate and its time stamp, as one call of \<^verbatim>\<open>read_latest\<close> returns them\<close>

fun poll_latest :: "int \<Rightarrow> latest list \<Rightarrow> real option" where
  \<comment> \<open>the first of successive reads that is a rate \<open>\<ge> 0\<close> newer than \<open>last_fps_bg_at_ms\<close>\<close>
  "poll_latest last_at [] = None"
| "poll_latest last_at ((None, pfps_at) # rs) = poll_latest last_at rs"
| "poll_latest last_at ((Some pfps, pfps_at) # rs) =
     (if pfps \<ge> 0 \<and> pfps_at > last_at then Some (max 0 pfps) else poll_latest last_at rs)"

datatype gfx_dump = GfxTotals "int option" "int option"
  \<comment> \<open>what \<^verbatim>\<open>_parse_gfx_totals\<close> returns: total and janky\<close>

definition gfx_poll :: "int \<Rightarrow> gfx_dump outcome \<Rightarrow> GfxState \<Rightarrow> real option \<times> GfxState" where
  \<comment> \<open>step 1 of the fallback chain, entered when the state is not disabled\<close>
  "gfx_poll now_ms out gfx_state =
     (let (fps_val, g1) =
            (case out of
               Raises \<Rightarrow> (None, gfx_state\<lparr>gfx_fail_streak := gfx_fail_streak gfx_state + 1\<rparr>)
             | Returns (GfxTotals None janky) \<Rightarrow>
                 (None, gfx_state\<lparr>gfx_fail_streak := gfx_fail_streak gfx_state + 1\<rparr>)
             | Returns (GfxTotals (Some total_now) janky) \<Rightarrow>
                 (let (v, g0) =
                        (case (gfx_prev_total gfx_state, gfx_prev_t_ms gfx_state) of
                           (Some prev_total, Some prev_t_ms) \<Rightarrow>
                             (let dt_ms = max 1 (now_ms - prev_t_ms);
                                  d_total = max 0 (total_now - prev_total)
                              in if d_total > 0
                                 then (Some (max 0 (real_of_int d_total * 1000 / real_of_int dt_ms)),
                                       gfx_state\<lparr>gfx_no_frame_streak := 0, gfx_fail_streak := 0\<rparr>)
                                 else (None,
                                       gfx_state\<lparr>gfx_no_frame_streak := gfx_no_frame_streak gfx_state + 1,
                                                 gfx_fail_streak := gfx_fail_streak gfx_state + 1\<rparr>))
                         | _ \<Rightarrow> (None, gfx_state))
                  in (v, g0\<lparr>gfx_prev_total := Some total_now, gfx_prev_janky := janky,
                             gfx_prev_t_ms := Some now_ms\<rparr>)))
      in if gfx_fail_streak g1 \<ge> 3 \<and> \<not> gfx_disabled g1
         then (fps_val, g1\<lparr>gfx_disabled := True\<rparr>) else (fps_val, g1))"

record fps_sample =
  fps_val :: "real option"
  gfx_after :: GfxState
  gfx_invoked :: bool
    \<comment> \<open>whether this call ran \<^verbatim>\<open>dumpsys gfxinfo\<close>\<close>

definition sample_fps ::
  "bool \<Rightarrow> bool \<Rightarrow> int \<Rightarrow> int \<Rightarrow> (nat \<Rightarrow> latest) \<Rightarrow> gfx_dump outcome \<Rightarrow> GfxState \<Rightarrow> fps_sample" where
  \<comment> \<open>\<open>reads k\<close> is what the \<open>k\<close>-th call of \<^verbatim>\<open>read_latest\<close> made by this task returns\<close>
  "sample_fps want_fps fps_bg_producing last_fps_bg_at_ms now_ms reads gfx_out gfx_state =
     (if \<not> want_fps then \<lparr>fps_val = None, gfx_after = gfx_state, gfx_invoked = False\<rparr>
      else if fps_bg_producing then
        (case poll_latest last_fps_bg_at_ms (map reads [0..<7]) of
           Some v \<Rightarrow> \<lparr>fps_val = Some v, gfx_after = gfx_state, gfx_invoked = False\<rparr>
         | None \<Rightarrow>
             (case fst (reads 6) of
                Some pfps \<Rightarrow>
                  (if pfps \<ge> 0 then \<lparr>fps_val = Some (max 0 pfps), gfx_after = gfx_state, gfx_invoked = False\<rparr>
                   else \<lparr>fps_val = None, gfx_after = gfx_state, gfx_invoked = False\<rparr>)
              | None \<Rightarrow> \<lparr>fps_val = None, gfx_after = gfx_state, gfx_invoked = False\<rparr>))
      else
        (let (v, g, invoked) =
               (if \<not> gfx_disabled gfx_state
                then (let (v0, g0) = gfx_poll now_ms gfx_out gfx_state in (v0, g0, True))
                else (None, gfx_state, False))
         in case v of
              Some f \<Rightarrow> \<lparr>fps_val = Some f, gfx_after = g, gfx_invoked = invoked\<rparr>
            | None \<Rightarrow>
                \<lparr>fps_val = poll_latest last_fps_bg_at_ms (map reads [0..<11]),
                 gfx_after = g, gfx_invoked = invoked\<rparr>))"

section \<open>The sampler loop\<close>

subsection \<open>Reading the configuration and writing the metrics over two paths\<close>

datatype path_mode = PathUnset | External | RunAs
  \<comment> \<open>the strings \<^verbatim>\<open>""\<close>, \<^verbatim>\<open>"external"\<close> and \<^verbatim>\<open>"run-as"\<close>\<close>

record adb_failure =
  is_adb_error :: bool          \<comment> \<open>\<^verbatim>\<open>isinstance(e, AdbError)\<close>\<close>
  no_such_file :: bool          \<comment> \<open>\<^verbatim>\<open>_is_no_such_file(e)\<close>\<close>
  permission_denied :: bool     \<comment> \<open>\<^verbatim>\<open>_is_permission_denied(e)\<close>\<close>
  not_debuggable :: bool        \<comment> \<open>\<^verbatim>\<open>_is_run_as_not_debuggable(e)\<close>\<close>

datatype cfg_source = SourceMissing | SourceExternal | SourceRunAs | SourceNotDebuggable

definition source_of :: "path_mode \<Rightarrow> cfg_source" where
  "source_of p = (if p = RunAs then SourceRunAs else SourceExternal)"

definition path_order :: "path_mode \<Rightarrow> path_mode list" where
  \<comment> \<open>the cached path first, then the other one\<close>
  "path_order m =
     (if m = RunAs then [RunAs, External]
      else if m = External then [External, RunAs]
      else [External, RunAs])"

record cfg_read =
  cfg_text :: string
  cfg_source :: cfg_source
  cfg_path_mode_after :: path_mode
  cfg_probed :: "path_mode list"
    \<comment> \<open>the paths this cycle has read, in order\<close>

fun try_readers :: "(path_mode \<Rightarrow> adb_failure + string) \<Rightarrow> path_mode list \<Rightarrow> cfg_read \<Rightarrow> cfg_read" where
  \<comment> \<open>the loop over \<^verbatim>\<open>cfg_readers\<close>; \<open>rest = []\<close> is \<^verbatim>\<open>i == len(cfg_readers) - 1\<close>\<close>
  "try_readers rd [] acc = acc"
| "try_readers rd (p # rest) acc =
     (let acc1 = acc\<lparr>cfg_probed := cfg_probed acc @ [p]\<rparr>
      in case rd p of
           Inr t \<Rightarrow> acc1\<lparr>cfg_text := strip t, cfg_source := source_of p, cfg_path_mode_after := p\<rparr>
         | Inl e \<Rightarrow>
             (if rest = [] then
                (if is_adb_error e \<and> not_debuggable e
                 then acc1\<lparr>cfg_source := SourceNotDebuggable, cfg_text := []\<rparr>
                 else if is_adb_error e \<and> no_such_file e
                 then acc1\<lparr>cfg_source := SourceMissing, cfg_text := []\<rparr>
                 else acc1\<lparr>cfg_text := []\<rparr>)
              else if is_adb_error e \<and> \<not> (no_such_file e \<or> permission_denied e)
              then acc1\<lparr>cfg_text := []\<rparr>
              else try_readers rd rest acc1))"

definition read_cfg :: "(path_mode \<Rightarrow> adb_failure + string) \<Rightarrow> path_mode \<Rightarrow> cfg_read" where
  "read_cfg rd cfg_path_mode0 =
     try_readers rd (path_order cfg_path_mode0)
       \<lparr>cfg_text = [], cfg_source = SourceMissing, cfg_path_mode_after = cfg_path_mode0,
        cfg_probed = []\<rparr>"

record metrics_write =
  wrote :: bool
  metrics_path_mode_after :: path_mode
  write_probed :: "path_mode list"
    \<comment> \<open>the paths this cycle has written to, in order\<close>

fun try_writers ::
  "(path_mode \<Rightarrow> adb_failure option) \<Rightarrow> path_mode list \<Rightarrow> metrics_write \<Rightarrow> metrics_write" where
  \<comment> \<open>the loop over \<^verbatim>\<open>writers\<close>; \<open>wr p = None\<close> when writing to \<open>p\<close> does not raise\<close>
  "try_writers wr [] acc = acc"
| "try_writers wr (p # rest) acc =
     (let acc1 = acc\<lparr>write_probed := write_probed acc @ [p]\<rparr>
      in case wr p of
           None \<Rightarrow> acc1\<lparr>wrote := True, metrics_path_mode_after := p\<rparr>
         | Some e \<Rightarrow>
             (if rest = [] then acc1
              else if is_adb_error e \<and> \<not> (no_such_file e \<or> permission_denied e) then acc1
              else try_writers wr rest acc1))"

definition write_metrics :: "(path_mode \<Rightarrow> adb_failure option) \<Rightarrow> path_mode \<Rightarrow> metrics_write" where
  "write_metrics wr metrics_path_mode0 =
     try_writers wr (path_order metrics_path_mode0)
       \<lparr>wrote = False, metrics_path_mode_after = metrics_path_mode0, write_probed = []\<rparr>"

subsection \<open>The configuration of a cycle and the last good one\<close>

record cfg_fields =
  cfg_enabled :: bool             \<comment> \<open>\<^verbatim>\<open>bool(cfg.get("enabled"))\<close>\<close>
  cfg_target_pkg :: string        \<comment> \<open>\<^verbatim>\<open>(cfg.get("targetPackage") or "").strip()\<close>\<close>
  cfg_sampling_ms :: int          \<comment> \<open>\<^verbatim>\<open>int(cfg.get("samplingMs") or 1000)\<close>\<close>
  cfg_keys :: "string list"       \<comment> \<open>\<^verbatim>\<open>cfg.get("metricKeys") or []\<close>\<close>

definition empty_cfg :: cfg_fields where
  \<comment> \<open>the four values for the empty dict\<close>
  "empty_cfg = \<lparr>cfg_enabled = False, cfg_target_pkg = [], cfg_sampling_ms = 1000, cfg_keys = []\<rparr>"

definition cfg_of_text :: "(string \<Rightarrow> cfg_fields option) \<Rightarrow> string \<Rightarrow> cfg_fields" where
  \<comment> \<open>\<open>json_loads\<close>: the four values of the parsed text, \<open>None\<close> where \<^verbatim>\<open>json.loads\<close> raises\<close>
  "cfg_of_text json_loads t =
     (if t \<noteq> [] then (case json_loads t of Some c \<Rightarrow> c | None \<Rightarrow> empty_cfg) else empty_cfg)"

record sampler_state =
  cpu_state :: CpuState
  cpu_total_state :: CpuTotalState
  net_state :: NetState
  gfx_state :: GfxState
  sf_state :: SfLatencyState
  last_fps_bg_at_ms :: int
  fps_bg_producing :: bool
  last_good_enabled :: bool
  last_good_target_pkg :: string
  last_good_sampling_ms :: int
  last_good_keys :: "string list"
  cfg_read_fail_streak :: nat
  cfg_path_mode :: path_mode
  metrics_path_mode :: path_mode
  fps_bg_configured :: "string \<times> string \<times> string list \<times> int \<times> bool"
    \<comment> \<open>the arguments of the last \<^verbatim>\<open>fps_bg.configure\<close>\<close>

definition new_sampler_state :: sampler_state where
  "new_sampler_state =
     \<lparr>cpu_state = new_CpuState, cpu_total_state = new_CpuTotalState, net_state = new_NetState,
      gfx_state = new_GfxState, sf_state = new_SfLatencyState,
      last_fps_bg_at_ms = 0, fps_bg_producing = False,
      last_good_enabled = False, last_good_target_pkg = [], last_good_sampling_ms = 1000,
      last_good_keys = [], cfg_read_fail_streak = 0,
      cfg_path_mode = PathUnset, metrics_path_mode = PathUnset,
      fps_bg_configured = ([], [], [], 1000, False)\<rparr>"

definition resolve_cfg :: "cfg_fields \<Rightarrow> sampler_state \<Rightarrow> cfg_fields \<times> sampler_state" where
  \<comment> \<open>remember a valid configuration, or fall back on the last good one\<close>
  "resolve_cfg c st =
     (if cfg_enabled c \<and> cfg_target_pkg c \<noteq> [] then
        (c, st\<lparr>last_good_enabled := cfg_enabled c, last_good_target_pkg := cfg_target_pkg c,
              last_good_sampling_ms := cfg_sampling_ms c, last_good_keys := cfg_keys c,
              cfg_read_fail_streak := 0\<rparr>)
      else if last_good_enabled st \<and> last_good_target_pkg st \<noteq> [] then
        (let st1 = st\<lparr>cfg_read_fail_streak := cfg_read_fail_streak st + 1\<rparr>
         in if cfg_read_fail_streak st1 \<le> 10
            then (\<lparr>cfg_enabled = last_good_enabled st1, cfg_target_pkg = last_good_target_pkg st1,
                   cfg_sampling_ms = last_good_sampling_ms st1, cfg_keys = last_good_keys st1\<rparr>, st1)
            else (c, st1\<lparr>cfg_read_fail_streak := 0, last_good_enabled := False,
                         last_good_target_pkg := []\<rparr>))
      else (c, st))"

definition enter_idle :: "sampler_state \<Rightarrow> sampler_state" where
  \<comment> \<open>the branch \<^verbatim>\<open>if not enabled or not target_pkg\<close>, up to its \<^verbatim>\<open>continue\<close>\<close>
  "enter_idle st =
     st\<lparr>fps_bg_configured := ([], [], [], 1000, False),
        gfx_state := (gfx_state st)\<lparr>gfx_prev_total := None, gfx_prev_janky := None,
                       gfx_prev_t_ms := None, gfx_no_frame_streak := 0, gfx_fail_streak := 0,
                       gfx_disabled := False\<rparr>,
        sf_state := (sf_state st)\<lparr>sf_layer := None, sf_prev_max_present_ns := None,
                       sf_prev_t_ms := None, sf_no_frame_streak := 0, sf_fail_streak := 0,
                       sf_disabled := False\<rparr>,
        cpu_total_state := (cpu_total_state st)\<lparr>ct_prev_total := None, ct_prev_idle := None\<rparr>,
        net_state := (net_state st)\<lparr>net_prev_rx_bytes := None, net_prev_tx_bytes := None,
                       net_prev_t_ms := None\<rparr>,
        last_fps_bg_at_ms := 0,
        fps_bg_producing := False\<rparr>"

subsection \<open>One cycle\<close>

record sampler_params =
  hz :: int
  cores :: int
  json_loads :: "string \<Rightarrow> cfg_fields option"
  py_int :: "string \<Rightarrow> int option"
  sf_latency_candidates :: "string \<Rightarrow> string \<Rightarrow> string list"

definition sampler_setup ::
  "int \<Rightarrow> int \<Rightarrow> (string \<Rightarrow> cfg_fields option) \<Rightarrow> (string \<Rightarrow> int option) \<Rightarrow>
   (string \<Rightarrow> string \<Rightarrow> string list) \<Rightarrow> sampler_params" where
  \<comment> \<open>\<open>hz\<close> and \<open>cores\<close> as \<^verbatim>\<open>getconf\<close> gave them; \<^verbatim>\<open>cores = max(1, cores)\<close>\<close>
  "sampler_setup hz0 cores0 js pint cands =
     \<lparr>hz = hz0, cores = max 1 cores0, json_loads = js, py_int = pint, sf_latency_candidates = cands\<rparr>"

record cycle_env =
  c_now_ms :: int
  c_read_path :: "path_mode \<Rightarrow> adb_failure + string"
  c_sample_count :: nat
    \<comment> \<open>\<^verbatim>\<open>fps_bg.sample_count\<close> as the cycle reads it\<close>
  c_pidof :: "string option outcome"
  c_stat :: "int option outcome"
  c_cpu_total :: "string list outcome"
  c_net :: "(real \<times> real) option outcome"
  c_gfx :: "gfx_dump outcome"
  c_reads :: "nat \<Rightarrow> latest"
  c_read_after :: latest
    \<comment> \<open>the \<^verbatim>\<open>read_latest\<close> of the main thread once the tasks are merged\<close>
  c_write_path :: "path_mode \<Rightarrow> adb_failure option"

record metric_values =
  cpu_fg_app_pct :: "real option"
  fps_app :: "real option"
  cpu_total_pct :: "real option"
  net_kbps :: "(real \<times> real) option"

datatype cycle_result = Waiting | Sampled metric_values bool
  \<comment> \<open>idle, or the rate metrics of the sample and whether it was written\<close>

definition sampling_cycle ::
  "sampler_params \<Rightarrow> cycle_env \<Rightarrow> cfg_fields \<Rightarrow> sampler_state \<Rightarrow> cycle_result \<times> sampler_state" where
  "sampling_cycle P env eff st =
     (let want = set (cfg_keys eff);
          target_pkg = cfg_target_pkg eff;
          now_ms = c_now_ms env;
          layer_hint = (case sf_layer (sf_state st) of None \<Rightarrow> [] | Some l \<Rightarrow> l);
          layer_cands = (if layer_hint \<noteq> [] then sf_latency_candidates P layer_hint target_pkg
                         else [target_pkg]);
          want_cpu = (''cpu_fg_app_pct'' \<in> want);
          want_pss = (''app_pss_mb'' \<in> want);
          want_fps = (''fps_app'' \<in> want);
          want_cpu_total = (''cpu_total_pct'' \<in> want);
          want_net = (''net_rx_kbps'' \<in> want \<or> ''net_tx_kbps'' \<in> want);
          producing = (if \<not> fps_bg_producing st \<and> c_sample_count env \<ge> 2 then True
                       else fps_bg_producing st);
          ((pid, cpu_pct), cs) =
             sample_pid_and_cpu want_cpu want_pss now_ms (hz P) (cores P) (c_pidof env) (c_stat env)
               (cpu_state st);
          fs = sample_fps want_fps producing (last_fps_bg_at_ms st) now_ms (c_reads env) (c_gfx env)
                 (gfx_state st);
          (ct_pct, cts) =
             (if want_cpu_total then
                (case c_cpu_total env of
                   Raises \<Rightarrow> (None, cpu_total_state st)
                 | Returns parts \<Rightarrow> parse_cpu_total (py_int P) parts (cpu_total_state st))
              else (None, cpu_total_state st));
          (net, ns) = sample_net want_net now_ms (c_net env) (net_state st);
          last_at =
             (case fps_val fs of
                None \<Rightarrow> last_fps_bg_at_ms st
              | Some v \<Rightarrow>
                  (if v \<ge> 0 then
                     (case c_read_after env of
                        (Some pfps, pfps_at) \<Rightarrow>
                          if pfps = v \<and> pfps_at > last_fps_bg_at_ms st then pfps_at
                          else last_fps_bg_at_ms st
                      | (None, _) \<Rightarrow> last_fps_bg_at_ms st)
                   else last_fps_bg_at_ms st));
          wr = write_metrics (c_write_path env) (metrics_path_mode st)
      in (Sampled \<lparr>cpu_fg_app_pct = cpu_pct, fps_app = fps_val fs, cpu_total_pct = ct_pct,
                   net_kbps = net\<rparr> (wrote wr),
          st\<lparr>fps_bg_configured := (target_pkg, layer_hint, layer_cands, cfg_sampling_ms eff, True),
             fps_bg_producing := producing,
             cpu_state := cs, gfx_state := gfx_after fs, cpu_total_state := cts, net_state := ns,
             last_fps_bg_at_ms := last_at,
             metrics_path_mode := metrics_path_mode_after wr\<rparr>))"

definition sampler_cycle ::
  "sampler_params \<Rightarrow> cycle_env \<Rightarrow> sampler_state \<Rightarrow> cycle_result \<times> sampler_state" where
  "sampler_cycle P env st =
     (let rd = read_cfg (c_read_path env) (cfg_path_mode st);
          st1 = st\<lparr>cfg_path_mode := cfg_path_mode_after rd\<rparr>;
          cfg = cfg_of_text (json_loads P) (cfg_text rd);
          (eff, st2) = resolve_cfg cfg st1
      in if \<not> cfg_enabled eff \<or> cfg_target_pkg eff = [] then (Waiting, enter_idle st2)
         else sampling_cycle P env eff st2)"

fun run_cycles ::
  "sampler_params \<Rightarrow> cycle_env list \<Rightarrow> sampler_state \<Rightarrow> cycle_result list \<times> sampler_state" where
  "run_cycles P [] st = ([], st)"
| "run_cycles P (env # envs) st =
     (let (r, st1) = sampler_cycle P env st;
          (rs, st2) = run_cycles P envs st1
      in (r # rs, st2))"

section \<open>Vocabulary of the statements\<close>

text \<open>
  Predicates and projections that the theorems use to speak about the states and results
  of the functions above; none of them is part of the program.
\<close>

definition far_apart :: "real \<Rightarrow> real \<Rightarrow> bool" where
  \<comment> \<open>the later event \<open>b\<close> is more than 2ms after the earlier event \<open>a\<close>\<close>
  "far_apart a b = (b - a > 2 / 1000)"

definition streaming :: "bg_worker \<Rightarrow> bool" where
  "streaming w = (mode w = ModeAtrace \<and> \<not> thread_done w \<and> bg_enabled w \<and> bg_target_pkg w \<noteq> [])"

definition demoted :: "bg_worker \<Rightarrow> bool" where
  "demoted w = (mode w = ModePerfetto \<and> \<not> atrace_running w)"

definition offline :: "bg_worker \<Rightarrow> bool" where
  "offline w = (mode w = ModePerfetto \<and> \<not> thread_done w \<and> bg_enabled w \<and> bg_target_pkg w \<noteq> [])"

definition cycle_fps :: "cycle_result \<Rightarrow> real option" where
  "cycle_fps r = (case r of Waiting \<Rightarrow> None | Sampled v w \<Rightarrow> fps_app v)"


definition read_succeeded :: "cfg_read \<Rightarrow> bool" where
  "read_succeeded r = (cfg_source r = SourceExternal \<or> cfg_source r = SourceRunAs)"




definition yields_nothing :: "(string \<Rightarrow> query_result) \<Rightarrow> string \<Rightarrow> string list \<Rightarrow> filter_entry \<Rightarrow> bool" where
  \<comment> \<open>the query of the filter answers, with no match or with a zero count\<close>
  "yields_nothing q table cols f =
     (case q (query_sql table cols (fst (snd f))) of
        QRaise \<Rightarrow> False
      | QNoMatch \<Rightarrow> True
      | QStats cnt min_ts max_ts \<Rightarrow> cnt = 0)"

definition sql_literal :: "string \<Rightarrow> string" where
  \<comment> \<open>a string as an SQL literal: between single quotes, every single quote doubled\<close>
  "sql_literal s =
     [CHR 0x27] @ concat (map (\<lambda>c. if c = CHR 0x27 then [CHR 0x27, CHR 0x27] else [c]) s) @ [CHR 0x27]"

definition exact_match :: "string \<Rightarrow> filter_entry" where
  \<comment> \<open>the rows whose layer name is the candidate\<close>
  "exact_match c = (''layer_name'', '' where layer_name = '' @ sql_literal c, ''layer_eq='' @ c)"

definition substring_match :: "string \<Rightarrow> string \<Rightarrow> filter_entry" where
  \<comment> \<open>the rows whose layer name contains the text: an SQL \<^verbatim>\<open>like\<close> between two \<^verbatim>\<open>%\<close>\<close>
  "substring_match tag s =
     (''layer_name'', '' where layer_name like '' @ sql_literal (''%'' @ s @ ''%''), tag @ ''='' @ s)"

definition no_filter :: filter_entry where
  "no_filter = (''-'', [], ''unfiltered'')"

definition candidates_in_order :: "string list \<Rightarrow> string list" where
  \<comment> \<open>the first ten of the stripped, non-empty candidates, each at its first occurrence\<close>
  "candidates_in_order xs = take 10 (rev (remdups (rev (filter (\<lambda>s. s \<noteq> []) (map strip xs)))))"

definition ranked_filters :: "string option \<Rightarrow> string list \<Rightarrow> string \<Rightarrow> filter_entry list" where
  \<comment> \<open>the ranking in words: exact match on each candidate, then substring match on each
      candidate, then substring match on the target, then no filter\<close>
  "ranked_filters layer_hint layer_candidates pkg =
     (let cands = candidates_in_order ((case layer_hint of None \<Rightarrow> [] | Some h \<Rightarrow> h) # layer_candidates)
      in map exact_match cands @ map (substring_match ''layer_like'') cands
         @ (if pkg \<noteq> [] then [substring_match ''pkg_like'' pkg] else [])
         @ [no_filter])"

fun mode_after_reads :: "(path_mode \<Rightarrow> adb_failure + string) list \<Rightarrow> path_mode \<Rightarrow> path_mode" where
  \<comment> \<open>the cached read mode after successive cycles, one reader outcome per cycle\<close>
  "mode_after_reads [] m = m"
| "mode_after_reads (rd # rds) m = mode_after_reads rds (cfg_path_mode_after (read_cfg rd m))"

fun mode_after_writes :: "(path_mode \<Rightarrow> adb_failure option) list \<Rightarrow> path_mode \<Rightarrow> path_mode" where
  \<comment> \<open>the cached write mode after successive cycles, one writer outcome per cycle\<close>
  "mode_after_writes [] m = m"
| "mode_after_writes (wr # wrs) m = mode_after_writes wrs (metrics_path_mode_after (write_metrics wr m))"

section \<open>Concrete inputs\<close>

text \<open>Traces, workers, cycles and states on which the functions are evaluated.\<close>

definition dump_four :: atrace_dump where
  \<comment> \<open>four frame markers, two of them 1ms apart, and a marker that is no frame boundary\<close>
  "dump_four = \<lparr>mark_matches = [(1017 / 1000, ''eglSwapBuffers''), (1, ''queueBuffer''),
                   (1001 / 1000, ''queueBuffer''), (11 / 10, ''queueBuffer''), (12 / 10, ''beginFrame'')],
                 vsync_matches = [1, 2]\<rparr>"

definition dump_single :: atrace_dump where
  \<comment> \<open>no frame marker, one composition event\<close>
  "dump_single = \<lparr>mark_matches = [(12 / 10, ''beginFrame'')], vsync_matches = [3 / 2]\<rparr>"

definition dump_none :: atrace_dump where
  "dump_none = \<lparr>mark_matches = [], vsync_matches = []\<rparr>"

definition streaming_worker :: bg_worker where
  \<comment> \<open>a configured worker whose \<^verbatim>\<open>atrace --async_start\<close> succeeded\<close>
  "streaming_worker = loop_start True (configure ''com.game'' [] [''com.game''] 1000 True new_worker)"

definition turn_with_dump :: "int \<Rightarrow> atrace_dump \<Rightarrow> bg_turn" where
  "turn_with_dump now d =
     \<lparr>stop_set = False, turn_now_ms = now, dump_outcome = Some d, perfetto_outcome = None\<rparr>"

definition turn_dump_fails :: bg_turn where
  "turn_dump_fails = \<lparr>stop_set = False, turn_now_ms = 7000, dump_outcome = None, perfetto_outcome = None\<rparr>"

definition offline_worker :: bg_worker where
  "offline_worker = loop_start False (configure ''com.game'' [] [''com.game''] 1000 True new_worker)"

definition turn_perfetto :: "int \<Rightarrow> (real option \<times> perf_detail) option \<Rightarrow> bg_turn" where
  "turn_perfetto now r = \<lparr>stop_set = False, turn_now_ms = now, dump_outcome = None, perfetto_outcome = r\<rparr>"

definition params0 :: sampler_params where
  "params0 = sampler_setup 100 8 (\<lambda>t. None) (\<lambda>s. None) (\<lambda>l p. [p])"

definition cfg_of_keys :: "string list \<Rightarrow> cfg_fields" where
  "cfg_of_keys ks = \<lparr>cfg_enabled = True, cfg_target_pkg = ''com.game'', cfg_sampling_ms = 1000, cfg_keys = ks\<rparr>"

definition quiet_env :: cycle_env where
  \<comment> \<open>a cycle in which every remote command raises and the worker has published nothing\<close>
  "quiet_env =
     \<lparr>c_now_ms = 20000,
      c_read_path = (\<lambda>p. Inl \<lparr>is_adb_error = True, no_such_file = False, permission_denied = False,
                              not_debuggable = False\<rparr>),
      c_sample_count = 0, c_pidof = Raises, c_stat = Raises, c_cpu_total = Raises, c_net = Raises,
      c_gfx = Raises, c_reads = (\<lambda>k. (None, 0)), c_read_after = (None, 0),
      c_write_path = (\<lambda>p. None)\<rparr>"

definition two_offline_turns :: "bg_turn list" where
  "two_offline_turns = [turn_perfetto 9000 (Some (None, QueryFailedDetail)),
                        turn_perfetto 12000 (Some (None, NoFrameTimelineTable))]"

definition env_after_two :: cycle_env where
  "env_after_two = quiet_env\<lparr>c_sample_count := 2\<rparr>"


fun dec_digits :: "nat \<Rightarrow> string \<Rightarrow> nat option" where
  "dec_digits acc [] = Some acc"
| "dec_digits acc (c # cs) =
     (if 48 \<le> (of_char c :: nat) \<and> (of_char c :: nat) \<le> 57
      then dec_digits (10 * acc + (of_char c - 48)) cs else None)"

definition dec_int :: "string \<Rightarrow> int option" where
  \<comment> \<open>\<^verbatim>\<open>int\<close> on a string of ASCII digits; every other string is refused\<close>
  "dec_int s = (if s = [] then None else map_option int (dec_digits 0 s))"

definition cpu_seen :: CpuState where
  "cpu_seen = \<lparr>cpu_prev_ticks = Some 1000, cpu_prev_t_ms = Some 10000\<rparr>"

definition cpu_total_seen :: CpuTotalState where
  "cpu_total_seen = \<lparr>ct_prev_total = Some 1000, ct_prev_idle = Some 800\<rparr>"

definition stat_tokens :: "string list" where
  "stat_tokens = [''300'', ''0'', ''100'', ''1000'', ''0'', ''0'', ''0'']"

definition missing_file :: adb_failure where
  "missing_file = \<lparr>is_adb_error = True, no_such_file = True, permission_denied = False,
                    not_debuggable = False\<rparr>"

definition cfg_text_on :: string where
  \<comment> \<open>the text of a configuration file that enables monitoring\<close>
  "cfg_text_on = ''{enabled: true, targetPackage: com.game, metricKeys: [cpu_fg_app_pct, cpu_total_pct, net_rx_kbps]}''"

definition cfg_on :: cfg_fields where
  "cfg_on = cfg_of_keys [''cpu_fg_app_pct'', ''cpu_total_pct'', ''net_rx_kbps'']"

definition runas_only :: "path_mode \<Rightarrow> adb_failure + string" where
  \<comment> \<open>the file is absent from external storage and readable through run-as\<close>
  "runas_only p = (if p = RunAs then Inr (cfg_text_on @ [CHR 0x0A]) else Inl missing_file)"

definition write_runas_only :: "path_mode \<Rightarrow> adb_failure option" where
  "write_runas_only p = (if p = RunAs then None else Some missing_file)"

definition params_json :: sampler_params where
  \<comment> \<open>100 ticks per second, 8 cores, and a parser that knows the one configuration text\<close>
  "params_json = sampler_setup 100 8 (\<lambda>t. if t = cfg_text_on then Some cfg_on else None) dec_int
                   (\<lambda>l p. [p])"



definition net_seen :: NetState where
  "net_seen = \<lparr>net_prev_rx_bytes = Some 4000, net_prev_tx_bytes = Some 5000, net_prev_t_ms = Some 10000\<rparr>"

definition busy_state :: sampler_state where
  \<comment> \<open>a session that has sampled process CPU, total CPU and network at 10000 ms\<close>
  "busy_state = new_sampler_state\<lparr>cpu_state := cpu_seen, cpu_total_state := cpu_total_seen,
                  net_state := net_seen\<rparr>"

definition env_busy :: cycle_env where
  \<comment> \<open>the first cycle after monitoring is enabled again, at 11000 ms\<close>
  "env_busy = quiet_env\<lparr>c_now_ms := 11000, c_read_path := runas_only,
                c_pidof := Returns (Some ''4242''), c_stat := Returns (Some 1200),
                c_cpu_total := Returns (''cpu'' # stat_tokens),
                c_net := Returns (Some (5024, 6024))\<rparr>"

definition example_table :: string where
  "example_table = ''actual_frame_timeline_slice''"

definition frame_cols :: "string list" where
  "frame_cols = [''id'', ''ts'', ''dur'', ''layer_name'']"

definition example_layer :: string where
  "example_layer = ''SurfaceView[pkg]#0''"

definition sql_exact_example :: string where
  "sql_exact_example = ''select printf('%d|%d|%d', count(*), min(ts), max(ts)) from actual_frame_timeline_slice where layer_name = 'SurfaceView[pkg]#0';''"

definition sql_like_example :: string where
  "sql_like_example = ''select printf('%d|%d|%d', count(*), min(ts), max(ts)) from actual_frame_timeline_slice where layer_name like '%SurfaceView[pkg]#0%';''"

definition sql_pkg_example :: string where
  "sql_pkg_example = ''select printf('%d|%d|%d', count(*), min(ts), max(ts)) from actual_frame_timeline_slice where layer_name like '%pkg%';''"

definition sql_unfiltered_example :: string where
  "sql_unfiltered_example = ''select printf('%d|%d|%d', count(*), min(ts), max(ts)) from actual_frame_timeline_slice;''"

definition stats_like_12 :: "string \<Rightarrow> query_result" where
  \<comment> \<open>exact match: 0 rows; substring match: 12 rows over one second; no filter: 40 rows\<close>
  "stats_like_12 q =
     (if q = sql_exact_example then QStats 0 0 0
      else if q = sql_like_example then QStats 12 1000000000 2000000000
      else if q = sql_unfiltered_example then QStats 40 1000000000 2000000000
      else QNoMatch)"

definition failing_read :: "path_mode \<Rightarrow> adb_failure + string" where
  \<comment> \<open>both paths answer that the file is missing\<close>
  "failing_read p = Inl missing_file"

definition failing_write :: "path_mode \<Rightarrow> adb_failure option" where
  "failing_write p = Some missing_file"

definition stats_unfiltered_40 :: "string \<Rightarrow> query_result" where
  \<comment> \<open>every layer filter: 0 rows; no filter: 40 rows over one second\<close>
  "stats_unfiltered_40 q =
     (if q = query_sql example_table frame_cols [] then QStats 40 1000000000 2000000000
      else QStats 0 0 0)"

definition trace_with :: "(string \<Rightarrow> query_result) \<Rightarrow> trace_env" where
  "trace_with stats =
     \<lparr>trace_exists = True, tables = Returns [example_table],
      ftrace_slice_fps = (None, NoFrameTimelineTable),
      table_cols = (\<lambda>t. Returns frame_cols), tp_stats = stats\<rparr>"

definition stats_all_zero :: "string \<Rightarrow> query_result" where
  "stats_all_zero q = QStats 0 0 0"

section \<open>Streaming strategy: deduplication and the rate of a snapshot\<close>

lemma dump_four_count: "count_frame_events dump_four 0 = (3, 1, 11 / 10, AtraceMarker)"
  by (simp add: count_frame_events_def frame_timestamps_def dump_four_def FRAME_MARKERS_def
      dedup_timestamps_def)

lemma dump_single_count: "count_frame_events dump_single 0 = (1, 3 / 2, 3 / 2, AtraceVsync)"
  by (simp add: count_frame_events_def frame_timestamps_def dump_single_def FRAME_MARKERS_def
      dedup_timestamps_def)

lemma streaming_worker_simps:
  "bg_enabled streaming_worker" "bg_target_pkg streaming_worker = ''com.game''"
  "last_max_ts streaming_worker = 0" "mode streaming_worker = ModeAtrace"
  "consecutive_empty streaming_worker = 0" "\<not> thread_done streaming_worker"
  "atrace_running streaming_worker" "sample_count streaming_worker = 0"
  "latest_fps streaming_worker = None" "latest_fps_at_ms streaming_worker = 0"
  by (simp_all add: streaming_worker_def loop_start_def configure_def new_worker_def)

lemma dedup_loop_gaps:
  "deduped \<noteq> [] \<Longrightarrow> sorted_wrt far_apart deduped \<Longrightarrow>
   sorted_wrt far_apart (dedup_loop deduped ts)"
proof (induction ts arbitrary: deduped)
  case Nil
  then show ?case by simp
next
  case (Cons t ts)
  show ?case
  proof (cases "t - last deduped > 2 / 1000")
    case True
    have "\<forall>x \<in> set deduped. far_apart x t"
    proof
      fix x assume x: "x \<in> set deduped"
      obtain ys where ys: "deduped = ys @ [last deduped]"
        using Cons.prems(1) by (metis append_butlast_last_id)
      then have "sorted_wrt far_apart (ys @ [last deduped])"
        using Cons.prems(2) by simp
      then have "\<forall>y \<in> set ys. far_apart y (last deduped)"
        by (simp add: sorted_wrt_append)
      moreover have "x \<in> set ys \<or> x = last deduped"
        using x ys by (metis Un_iff insert_iff list.set(2) set_append empty_iff list.set(1))
      ultimately show "far_apart x t" using True unfolding far_apart_def by fastforce
    qed
    then have "sorted_wrt far_apart (deduped @ [t])"
      using Cons.prems(2) by (simp add: sorted_wrt_append)
    then have "sorted_wrt far_apart (dedup_loop (deduped @ [t]) ts)"
      using Cons.IH [of "deduped @ [t]"] by simp
    then show ?thesis using True by (simp del: divide_less_eq_numeral1 less_divide_eq_numeral1)
  next
    case False
    then show ?thesis using Cons by (simp del: divide_less_eq_numeral1 less_divide_eq_numeral1)
  qed
qed

lemma dedup_loop_length: "length (dedup_loop deduped ts) \<le> length deduped + length ts"
proof (induction ts arbitrary: deduped)
  case Nil
  then show ?case by simp
next
  case (Cons t ts)
  have "length (dedup_loop (deduped @ [t]) ts) \<le> length (deduped @ [t]) + length ts"
    by (rule Cons.IH)
  moreover have "length (dedup_loop deduped ts) \<le> length deduped + length ts"
    by (rule Cons.IH)
  ultimately show ?case by (simp split: if_splits)
qed

lemma dedup_loop_nonempty: "deduped \<noteq> [] \<Longrightarrow> dedup_loop deduped ts \<noteq> []"
  by (induction ts arbitrary: deduped) auto

lemma dedup_timestamps_gaps: "sorted_wrt far_apart (dedup_timestamps timestamps)"
  unfolding dedup_timestamps_def
  by (cases "sort timestamps") (simp_all add: dedup_loop_gaps)

lemma dedup_timestamps_length: "length (dedup_timestamps timestamps) \<le> length timestamps"
proof (cases "sort timestamps")
  case Nil
  then show ?thesis by (simp add: dedup_timestamps_def)
next
  case (Cons t0 rest)
  have "length (dedup_loop [t0] rest) \<le> length (t0 # rest)"
    using dedup_loop_length [of "[t0]" rest] by simp
  also have "\<dots> = length timestamps"
    using Cons by (metis length_sort)
  finally show ?thesis using Cons by (simp add: dedup_timestamps_def)
qed

lemma count_le_raw:
  "fst (count_frame_events dump since_ts) \<le> length (fst (frame_timestamps dump since_ts))"
  by (cases "frame_timestamps dump since_ts")
     (simp add: count_frame_events_def Let_def dedup_timestamps_length)

lemma atrace_turn_fps:
  assumes "bg_enabled w" "bg_target_pkg w \<noteq> []" "\<not> stop_set t" "dump_outcome t = Some dump"
    and "count_frame_events dump (last_max_ts w) = (frame_count, min_ts, max_ts, meth)"
    and "frame_count > 0"
  shows "latest_fps (loop_atrace_turn t w) =
           Some (if max_ts - min_ts > 5 / 100 then real frame_count / (max_ts - min_ts)
                 else real frame_count)"
  using assms by (simp add: loop_atrace_turn_def Let_def)

text \<open>
  C1. In the streaming strategy the retained frame-boundary timestamps of a snapshot are
  pairwise more than 2ms apart and no more numerous than the raw events; a snapshot with
  at least one event publishes \<open>frame_count / (max_ts - min_ts)\<close> when the span exceeds
  50ms and \<open>frame_count\<close> otherwise, so that with a span \<open>\<le> 0\<close> the published rate
  does not exceed \<open>frame_count\<close>.
\<close>

theorem streaming_dedup_and_fps:
  "sorted_wrt far_apart (dedup_timestamps timestamps) \<and>
   length (dedup_timestamps timestamps) \<le> length timestamps \<and>
   fst (count_frame_events dump since_ts) \<le> length (fst (frame_timestamps dump since_ts)) \<and>
   (bg_enabled w \<and> bg_target_pkg w \<noteq> [] \<and> \<not> stop_set t \<and> dump_outcome t = Some dump \<and>
    count_frame_events dump (last_max_ts w) = (frame_count, min_ts, max_ts, meth) \<and>
    frame_count > 0 \<longrightarrow>
      latest_fps (loop_atrace_turn t w) =
        Some (if max_ts - min_ts > 5 / 100 then real frame_count / (max_ts - min_ts)
              else real frame_count) \<and>
      (max_ts - min_ts \<le> 0 \<longrightarrow> the (latest_fps (loop_atrace_turn t w)) \<le> real frame_count))"
proof -
  have "bg_enabled w \<and> bg_target_pkg w \<noteq> [] \<and> \<not> stop_set t \<and> dump_outcome t = Some dump \<and>
    count_frame_events dump (last_max_ts w) = (frame_count, min_ts, max_ts, meth) \<and>
    frame_count > 0 \<longrightarrow>
      latest_fps (loop_atrace_turn t w) =
        Some (if max_ts - min_ts > 5 / 100 then real frame_count / (max_ts - min_ts)
              else real frame_count) \<and>
      (max_ts - min_ts \<le> 0 \<longrightarrow> the (latest_fps (loop_atrace_turn t w)) \<le> real frame_count)"
    using atrace_turn_fps [of w t dump frame_count min_ts max_ts meth] by auto
  then show ?thesis
    using dedup_timestamps_gaps dedup_timestamps_length count_le_raw by blast
qed

theorem streaming_dedup_and_fps_witness:
  "dedup_timestamps [1017 / 1000, 1, 1001 / 1000, 11 / 10] = [1, 1017 / 1000, 11 / 10] \<and>
   sorted_wrt far_apart [1, 1017 / 1000, 11 / 10] \<and>
   count_frame_events dump_four 0 = (3, 1, 11 / 10, AtraceMarker) \<and>
   latest_fps (loop_atrace_turn (turn_with_dump 5000 dump_four) streaming_worker) = Some 30 \<and>
   count_frame_events dump_single 0 = (1, 3 / 2, 3 / 2, AtraceVsync) \<and>
   latest_fps (loop_atrace_turn (turn_with_dump 5000 dump_single) streaming_worker) = Some 1"
proof -
  have d: "dedup_timestamps [1017 / 1000, 1, 1001 / 1000, 11 / 10] = [1, 1017 / 1000, 11 / 10]"
    by (simp add: dedup_timestamps_def)
  have a: "latest_fps (loop_atrace_turn (turn_with_dump 5000 dump_four) streaming_worker) = Some 30"
    using streaming_dedup_and_fps [of "[1017 / 1000, 1, 1001 / 1000, 11 / 10]" dump_four 0
        streaming_worker "turn_with_dump 5000 dump_four" 3 1 "11 / 10" AtraceMarker]
    by (simp add: dump_four_count streaming_worker_simps turn_with_dump_def)
  have b: "latest_fps (loop_atrace_turn (turn_with_dump 5000 dump_single) streaming_worker) = Some 1"
    using streaming_dedup_and_fps [of "[3 / 2]" dump_single 0
        streaming_worker "turn_with_dump 5000 dump_single" 1 "3 / 2" "3 / 2" AtraceVsync]
    by (simp add: dump_single_count streaming_worker_simps turn_with_dump_def)
  have s: "sorted_wrt far_apart [1, 1017 / 1000, 11 / 10]"
    using streaming_dedup_and_fps [of "[1017 / 1000, 1, 1001 / 1000, 11 / 10]" dump_four 0
        streaming_worker "turn_with_dump 5000 dump_four" 3 1 "11 / 10" AtraceMarker]
    unfolding d by blast
  show ?thesis using d a b s dump_four_count dump_single_count by simp
qed

section \<open>Streaming strategy: demotion to the offline strategy\<close>

lemma perfetto_turn_keeps_demoted:
  "demoted w \<Longrightarrow> demoted (loop_turn t w)"
  by (auto simp: demoted_def loop_turn_def loop_perfetto_turn_def Let_def
      split: option.splits prod.splits)

lemma run_turns_keeps_demoted: "demoted w \<Longrightarrow> demoted (run_turns ts w)"
  by (induction ts arbitrary: w) (simp_all add: perfetto_turn_keeps_demoted)

lemma failed_dump_turn:
  assumes "streaming w" "\<not> stop_set t" "dump_outcome t = None"
  shows "loop_turn t w =
           (if consecutive_empty w + 1 \<ge> 5
            then switch_to_perfetto (w\<lparr>consecutive_empty := consecutive_empty w + 1\<rparr>)
            else w\<lparr>consecutive_empty := consecutive_empty w + 1\<rparr>)"
  using assms by (simp add: streaming_def loop_turn_def loop_atrace_turn_def Let_def)

lemma empty_dump_turn:
  assumes "streaming w" "\<not> stop_set t" "dump_outcome t = Some d"
    "fst (count_frame_events d (last_max_ts w)) = 0"
  shows "loop_turn t w =
           (if consecutive_empty w + 1 \<ge> 10
            then switch_to_perfetto (w\<lparr>consecutive_empty := consecutive_empty w + 1\<rparr>)
            else w\<lparr>consecutive_empty := consecutive_empty w + 1\<rparr>)"
  using assms
  by (cases "count_frame_events d (last_max_ts w)")
     (simp add: streaming_def loop_turn_def loop_atrace_turn_def Let_def)

lemma frames_dump_turn:
  assumes "streaming w" "\<not> stop_set t" "dump_outcome t = Some d"
    "fst (count_frame_events d (last_max_ts w)) > 0"
  shows "consecutive_empty (loop_turn t w) = 0 \<and> mode (loop_turn t w) = ModeAtrace \<and>
         atrace_running (loop_turn t w) = atrace_running w \<and>
         sample_count (loop_turn t w) = sample_count w + 1"
  using assms
  by (cases "count_frame_events d (last_max_ts w)")
     (simp add: streaming_def loop_turn_def loop_atrace_turn_def Let_def)

lemma demoted_switch: "demoted (switch_to_perfetto w)"
  by (simp add: demoted_def switch_to_perfetto_def atrace_stop_def)

lemma streaming_bump:
  "streaming w \<Longrightarrow> streaming (w\<lparr>consecutive_empty := n\<rparr>)"
  by (simp add: streaming_def)

lemma failures_count:
  "streaming w \<Longrightarrow> \<forall>t \<in> set ts. \<not> stop_set t \<and> dump_outcome t = None \<Longrightarrow>
   demoted (run_turns ts w) \<or>
   (consecutive_empty (run_turns ts w) = consecutive_empty w + length ts \<and>
    (ts \<noteq> [] \<longrightarrow> consecutive_empty w + length ts < 5))"
proof (induction ts arbitrary: w)
  case Nil
  then show ?case by simp
next
  case (Cons t ts)
  have step: "loop_turn t w =
           (if consecutive_empty w + 1 \<ge> 5
            then switch_to_perfetto (w\<lparr>consecutive_empty := consecutive_empty w + 1\<rparr>)
            else w\<lparr>consecutive_empty := consecutive_empty w + 1\<rparr>)"
    using Cons.prems by (intro failed_dump_turn) simp_all
  show ?case
  proof (cases "consecutive_empty w + 1 \<ge> 5")
    case True
    then have "demoted (loop_turn t w)" using step by (simp add: demoted_switch)
    then show ?thesis by (simp add: run_turns_keeps_demoted)
  next
    case False
    let ?w1 = "w\<lparr>consecutive_empty := consecutive_empty w + 1\<rparr>"
    have w1: "loop_turn t w = ?w1" using step False by simp
    have "streaming ?w1" using Cons.prems(1) by (rule streaming_bump)
    moreover have "\<forall>t \<in> set ts. \<not> stop_set t \<and> dump_outcome t = None"
      using Cons.prems(2) by simp
    ultimately have "demoted (run_turns ts ?w1) \<or>
       (consecutive_empty (run_turns ts ?w1) = consecutive_empty ?w1 + length ts \<and>
        (ts \<noteq> [] \<longrightarrow> consecutive_empty ?w1 + length ts < 5))"
      by (rule Cons.IH)
    then show ?thesis using w1 False by (cases "ts = []") auto
  qed
qed

lemma empties_count:
  "streaming w \<Longrightarrow>
   \<forall>t \<in> set ts. \<not> stop_set t \<and>
      (\<exists>d. dump_outcome t = Some d \<and> fst (count_frame_events d (last_max_ts w)) = 0) \<Longrightarrow>
   demoted (run_turns ts w) \<or>
   (consecutive_empty (run_turns ts w) = consecutive_empty w + length ts \<and>
    (ts \<noteq> [] \<longrightarrow> consecutive_empty w + length ts < 10))"
proof (induction ts arbitrary: w)
  case Nil
  then show ?case by simp
next
  case (Cons t ts)
  obtain d where d: "dump_outcome t = Some d" "fst (count_frame_events d (last_max_ts w)) = 0"
    using Cons.prems(2) by auto
  have step: "loop_turn t w =
           (if consecutive_empty w + 1 \<ge> 10
            then switch_to_perfetto (w\<lparr>consecutive_empty := consecutive_empty w + 1\<rparr>)
            else w\<lparr>consecutive_empty := consecutive_empty w + 1\<rparr>)"
    using Cons.prems d by (intro empty_dump_turn) simp_all
  show ?case
  proof (cases "consecutive_empty w + 1 \<ge> 10")
    case True
    then have "demoted (loop_turn t w)" using step by (simp add: demoted_switch)
    then show ?thesis by (simp add: run_turns_keeps_demoted)
  next
    case False
    let ?w1 = "w\<lparr>consecutive_empty := consecutive_empty w + 1\<rparr>"
    have w1: "loop_turn t w = ?w1" using step False by simp
    have "streaming ?w1" using Cons.prems(1) by (rule streaming_bump)
    moreover have "\<forall>t \<in> set ts. \<not> stop_set t \<and>
      (\<exists>d. dump_outcome t = Some d \<and> fst (count_frame_events d (last_max_ts ?w1)) = 0)"
      using Cons.prems(2) by simp
    ultimately have "demoted (run_turns ts ?w1) \<or>
       (consecutive_empty (run_turns ts ?w1) = consecutive_empty ?w1 + length ts \<and>
        (ts \<noteq> [] \<longrightarrow> consecutive_empty ?w1 + length ts < 10))"
      by (rule Cons.IH)
    then show ?thesis using w1 False by (cases "ts = []") auto
  qed
qed

text \<open>
  C7. A streaming worker that meets 5 consecutive failed dumps, or 10 consecutive dumps
  without a frame event, has stopped atrace and runs the offline loop afterwards; a dump
  with a frame event puts the one counter behind both thresholds back to zero and leaves
  the worker streaming.
\<close>

theorem streaming_demotes_to_offline:
  assumes "streaming w"
  shows "(length ts = 5 \<and> (\<forall>t \<in> set ts. \<not> stop_set t \<and> dump_outcome t = None)
            \<longrightarrow> demoted (run_turns ts w)) \<and>
         (length ts = 10 \<and>
          (\<forall>t \<in> set ts. \<not> stop_set t \<and>
              (\<exists>d. dump_outcome t = Some d \<and> fst (count_frame_events d (last_max_ts w)) = 0))
            \<longrightarrow> demoted (run_turns ts w)) \<and>
         (\<not> stop_set t \<and> dump_outcome t = Some d \<and> fst (count_frame_events d (last_max_ts w)) > 0
            \<longrightarrow> consecutive_empty (loop_turn t w) = 0 \<and> mode (loop_turn t w) = ModeAtrace \<and>
                atrace_running (loop_turn t w) = atrace_running w)"
proof (intro conjI impI)
  assume a: "length ts = 5 \<and> (\<forall>t \<in> set ts. \<not> stop_set t \<and> dump_outcome t = None)"
  then have "ts \<noteq> []" by auto
  then show "demoted (run_turns ts w)"
    using failures_count [OF assms, of ts] a by auto
next
  assume a: "length ts = 10 \<and>
          (\<forall>t \<in> set ts. \<not> stop_set t \<and>
              (\<exists>d. dump_outcome t = Some d \<and> fst (count_frame_events d (last_max_ts w)) = 0))"
  then have "ts \<noteq> []" by auto
  then show "demoted (run_turns ts w)"
    using empties_count [OF assms, of ts] a by auto
next
  assume a: "\<not> stop_set t \<and> dump_outcome t = Some d \<and> fst (count_frame_events d (last_max_ts w)) > 0"
  then show "consecutive_empty (loop_turn t w) = 0"
    and "mode (loop_turn t w) = ModeAtrace"
    and "atrace_running (loop_turn t w) = atrace_running w"
    using frames_dump_turn [OF assms, of t d] by simp_all
qed

lemma streaming_worker_streaming: "streaming streaming_worker"
  by (simp add: streaming_def streaming_worker_def loop_start_def configure_def new_worker_def)

lemma run4: "run_turns (replicate 4 turn_dump_fails) streaming_worker = streaming_worker\<lparr>consecutive_empty := 4\<rparr>"
  by (simp add: numeral_eq_Suc loop_turn_def loop_atrace_turn_def turn_dump_fails_def streaming_worker_def loop_start_def configure_def new_worker_def Let_def)

lemma dump_none_count: "count_frame_events dump_none since = (0, 0, 0, NoEvents)"
  by (simp add: count_frame_events_def frame_timestamps_def dump_none_def)

lemma run9: "run_turns (replicate 9 (turn_with_dump 0 dump_none)) streaming_worker = streaming_worker\<lparr>consecutive_empty := 9\<rparr>"
  by (simp add: numeral_eq_Suc loop_turn_def loop_atrace_turn_def turn_with_dump_def dump_none_count streaming_worker_def loop_start_def configure_def new_worker_def Let_def)

theorem streaming_demotes_to_offline_witness:
  "streaming streaming_worker \<and>
   demoted (run_turns (replicate 5 turn_dump_fails) streaming_worker) \<and>
   mode (run_turns (replicate 4 turn_dump_fails) streaming_worker) = ModeAtrace \<and>
   demoted (run_turns (replicate 10 (turn_with_dump 0 dump_none)) streaming_worker) \<and>
   mode (run_turns (replicate 9 (turn_with_dump 0 dump_none)) streaming_worker) = ModeAtrace \<and>
   consecutive_empty (loop_turn (turn_with_dump 5000 dump_four)
      (run_turns (replicate 4 turn_dump_fails) streaming_worker)) = 0"
proof -
  have s4: "streaming (streaming_worker\<lparr>consecutive_empty := 4\<rparr>)"
    using streaming_worker_streaming by (rule streaming_bump)
  have a: "demoted (run_turns (replicate 5 turn_dump_fails) streaming_worker)"
    using streaming_demotes_to_offline [OF streaming_worker_streaming,
        of "replicate 5 turn_dump_fails"]
    by (simp add: turn_dump_fails_def)
  have b: "demoted (run_turns (replicate 10 (turn_with_dump 0 dump_none)) streaming_worker)"
    using streaming_demotes_to_offline [OF streaming_worker_streaming,
        of "replicate 10 (turn_with_dump 0 dump_none)"]
    by (simp add: turn_with_dump_def dump_none_count)
  have c: "consecutive_empty (loop_turn (turn_with_dump 5000 dump_four)
      (streaming_worker\<lparr>consecutive_empty := 4\<rparr>)) = 0"
    using streaming_demotes_to_offline [OF s4, of _ "turn_with_dump 5000 dump_four" dump_four]
    by (simp add: turn_with_dump_def dump_four_count streaming_worker_simps)
  show ?thesis
    using a b c streaming_worker_streaming by (simp add: run4 run9 streaming_worker_simps)
qed

lemma perfetto_returns_turn:
  assumes "offline w" "\<not> stop_set t" "perfetto_outcome t = Some (fps, detail)"
  shows "sample_count (loop_turn t w) = sample_count w + 1"
    and "fps = None \<Longrightarrow> latest_fps (loop_turn t w) = latest_fps w \<and>
                         latest_fps_at_ms (loop_turn t w) = latest_fps_at_ms w"
    and "offline (loop_turn t w)"
  using assms
  by (auto simp: offline_def loop_turn_def loop_perfetto_turn_def Let_def split: option.splits)

lemma perfetto_raises_turn:
  assumes "offline w" "\<not> stop_set t" "perfetto_outcome t = None"
  shows "loop_turn t w = w"
  using assms by (simp add: offline_def loop_turn_def loop_perfetto_turn_def)

lemma no_fps_runs:
  "offline w \<Longrightarrow> \<forall>t \<in> set ts. \<not> stop_set t \<and> (\<exists>detail. perfetto_outcome t = Some (None, detail)) \<Longrightarrow>
   sample_count (run_turns ts w) = sample_count w + length ts \<and>
   latest_fps (run_turns ts w) = latest_fps w \<and>
   latest_fps_at_ms (run_turns ts w) = latest_fps_at_ms w"
proof (induction ts arbitrary: w)
  case Nil
  then show ?case by simp
next
  case (Cons t ts)
  obtain detail where d: "perfetto_outcome t = Some (None, detail)" "\<not> stop_set t"
    using Cons.prems(2) by auto
  have 1: "sample_count (loop_turn t w) = sample_count w + 1"
    and 2: "latest_fps (loop_turn t w) = latest_fps w \<and>
            latest_fps_at_ms (loop_turn t w) = latest_fps_at_ms w"
    and 3: "offline (loop_turn t w)"
    using perfetto_returns_turn [OF Cons.prems(1) d(2) d(1)] by simp_all
  have "sample_count (run_turns ts (loop_turn t w)) = sample_count (loop_turn t w) + length ts \<and>
   latest_fps (run_turns ts (loop_turn t w)) = latest_fps (loop_turn t w) \<and>
   latest_fps_at_ms (run_turns ts (loop_turn t w)) = latest_fps_at_ms (loop_turn t w)"
    using Cons.prems(2) by (intro Cons.IH [OF 3]) simp
  then show ?case using 1 2 by simp
qed

lemma poll_latest_none: "\<forall>r \<in> set rs. fst r = None \<Longrightarrow> poll_latest last_at rs = None"
  by (induction last_at rs rule: poll_latest.induct) simp_all

lemma producing_without_value:
  assumes "\<forall>k. fst (reads k) = None"
  shows "sample_fps True True last_at now reads gfx_out g =
           \<lparr>fps_val = None, gfx_after = g, gfx_invoked = False\<rparr>"
proof -
  have "poll_latest last_at (map reads [0..<7]) = None"
    using assms by (intro poll_latest_none) simp
  then show ?thesis using assms by (simp add: sample_fps_def)
qed

section \<open>Offline attempts and the producing condition\<close>

lemma sampling_cycle_producing_no_value:
  assumes "''fps_app'' \<in> set (cfg_keys eff)" "c_sample_count env \<ge> 2"
    "\<forall>k. fst (c_reads env k) = None"
  shows "cycle_fps (fst (sampling_cycle P env eff st)) = None"
    and "fst (sampling_cycle P env eff st) \<noteq> Waiting"
    and "gfx_state (snd (sampling_cycle P env eff st)) = gfx_state st"
    and "fps_bg_producing (snd (sampling_cycle P env eff st))"
  using assms
  by (simp_all add: sampling_cycle_def Let_def split_beta producing_without_value cycle_fps_def)

text \<open>
  C10 (as amended). An offline attempt that returns, with a rate or without one, adds one
  to \<open>sample_count\<close>; an attempt that raises adds nothing. So after two attempts that
  return no rate the count is 2 while \<open>read_latest\<close> still gives no rate and the time
  stamp 0, the cycle takes the worker as producing, and its frame-rate task returns no
  value without running the legacy counter.
\<close>

theorem offline_attempts_count_without_value:
  "(offline w \<and> \<not> stop_set t \<and> perfetto_outcome t = Some (fps, detail)
      \<longrightarrow> sample_count (loop_turn t w) = sample_count w + 1) \<and>
   (offline w \<and> \<not> stop_set t \<and> perfetto_outcome t = None
      \<longrightarrow> sample_count (loop_turn t w) = sample_count w) \<and>
   (offline w \<and> latest_fps w = None \<and> latest_fps_at_ms w = 0 \<and> length ts \<ge> 2 \<and>
    (\<forall>t \<in> set ts. \<not> stop_set t \<and> (\<exists>detail. perfetto_outcome t = Some (None, detail))) \<and>
    c_sample_count env = sample_count (run_turns ts w) \<and>
    (\<forall>k. c_reads env k = (fst (read_latest (run_turns ts w)), fst (snd (read_latest (run_turns ts w))))) \<and>
    ''fps_app'' \<in> set (cfg_keys eff)
      \<longrightarrow> sample_count (run_turns ts w) \<ge> 2 \<and>
          fst (read_latest (run_turns ts w)) = None \<and>
          fst (snd (read_latest (run_turns ts w))) = 0 \<and>
          fps_bg_producing (snd (sampling_cycle P env eff st)) \<and>
          fst (sampling_cycle P env eff st) \<noteq> Waiting \<and>
          cycle_fps (fst (sampling_cycle P env eff st)) = None \<and>
          gfx_state (snd (sampling_cycle P env eff st)) = gfx_state st \<and>
          \<not> gfx_invoked (sample_fps True True (last_fps_bg_at_ms st) (c_now_ms env) (c_reads env)
                          (c_gfx env) (gfx_state st)))"
proof (intro conjI impI)
  assume "offline w \<and> \<not> stop_set t \<and> perfetto_outcome t = Some (fps, detail)"
  then show "sample_count (loop_turn t w) = sample_count w + 1"
    using perfetto_returns_turn(1) by blast
next
  assume "offline w \<and> \<not> stop_set t \<and> perfetto_outcome t = None"
  then show "sample_count (loop_turn t w) = sample_count w"
    using perfetto_raises_turn by simp
next
  assume a: "offline w \<and> latest_fps w = None \<and> latest_fps_at_ms w = 0 \<and> length ts \<ge> 2 \<and>
    (\<forall>t \<in> set ts. \<not> stop_set t \<and> (\<exists>detail. perfetto_outcome t = Some (None, detail))) \<and>
    c_sample_count env = sample_count (run_turns ts w) \<and>
    (\<forall>k. c_reads env k = (fst (read_latest (run_turns ts w)), fst (snd (read_latest (run_turns ts w))))) \<and>
    ''fps_app'' \<in> set (cfg_keys eff)"
  have r: "sample_count (run_turns ts w) = sample_count w + length ts \<and>
           latest_fps (run_turns ts w) = latest_fps w \<and>
           latest_fps_at_ms (run_turns ts w) = latest_fps_at_ms w"
    using a by (intro no_fps_runs) simp_all
  show c2: "sample_count (run_turns ts w) \<ge> 2" using r a by simp
  show l1: "fst (read_latest (run_turns ts w)) = None" using r a by (simp add: read_latest_def)
  show "fst (snd (read_latest (run_turns ts w))) = 0" using r a by (simp add: read_latest_def)
  have k: "''fps_app'' \<in> set (cfg_keys eff)" and n: "c_sample_count env \<ge> 2"
    and rd: "\<forall>k. fst (c_reads env k) = None"
    using a c2 l1 by simp_all
  show "fps_bg_producing (snd (sampling_cycle P env eff st))"
    and "fst (sampling_cycle P env eff st) \<noteq> Waiting"
    and "cycle_fps (fst (sampling_cycle P env eff st)) = None"
    and "gfx_state (snd (sampling_cycle P env eff st)) = gfx_state st"
    using sampling_cycle_producing_no_value [OF k n rd] by simp_all
  show "\<not> gfx_invoked (sample_fps True True (last_fps_bg_at_ms st) (c_now_ms env) (c_reads env)
                          (c_gfx env) (gfx_state st))"
    using producing_without_value [OF rd] by simp
qed

text \<open>An offline attempt that raises leaves \<open>sample_count\<close> where it was.\<close>

theorem offline_attempt_raising_counterexample:
  "sample_count offline_worker = 0 \<and>
   sample_count (loop_turn (turn_perfetto 9000 None) offline_worker) = 0"
  by (simp add: offline_worker_def turn_perfetto_def loop_turn_def loop_perfetto_turn_def
      loop_start_def configure_def new_worker_def)

lemma offline_worker_offline: "offline offline_worker"
  by (simp add: offline_def offline_worker_def loop_start_def configure_def new_worker_def)

lemma run_two_offline:
  "run_turns two_offline_turns offline_worker = offline_worker\<lparr>sample_count := 2\<rparr>"
  by (simp add: two_offline_turns_def turn_perfetto_def loop_turn_def loop_perfetto_turn_def
      offline_worker_def loop_start_def configure_def new_worker_def)

theorem offline_attempts_count_without_value_witness:
  "sample_count (run_turns two_offline_turns offline_worker) = 2 \<and>
   read_latest (run_turns two_offline_turns offline_worker) = (None, 0, NoDetail) \<and>
   fps_bg_producing (snd (sampling_cycle params0 env_after_two (cfg_of_keys [''fps_app'']) new_sampler_state)) \<and>
   cycle_fps (fst (sampling_cycle params0 env_after_two (cfg_of_keys [''fps_app'']) new_sampler_state)) = None \<and>
   gfx_state (snd (sampling_cycle params0 env_after_two (cfg_of_keys [''fps_app'']) new_sampler_state)) = new_GfxState \<and>
   sample_count (loop_turn (turn_perfetto 9000 (Some (Some 60, QueryFailedDetail))) offline_worker) = 1"
proof -
  have rl: "read_latest (run_turns two_offline_turns offline_worker) = (None, 0, NoDetail)"
    unfolding run_two_offline read_latest_def
    by (simp add: offline_worker_def loop_start_def configure_def new_worker_def)
  have sc: "sample_count (run_turns two_offline_turns offline_worker) = 2"
    by (simp add: run_two_offline)
  have pre: "offline offline_worker \<and> latest_fps offline_worker = None \<and>
    latest_fps_at_ms offline_worker = 0 \<and> length two_offline_turns \<ge> 2 \<and>
    (\<forall>t \<in> set two_offline_turns. \<not> stop_set t \<and> (\<exists>detail. perfetto_outcome t = Some (None, detail))) \<and>
    c_sample_count env_after_two = sample_count (run_turns two_offline_turns offline_worker) \<and>
    (\<forall>k. c_reads env_after_two k = (fst (read_latest (run_turns two_offline_turns offline_worker)),
                                     fst (snd (read_latest (run_turns two_offline_turns offline_worker))))) \<and>
    ''fps_app'' \<in> set (cfg_keys (cfg_of_keys [''fps_app'']))"
    unfolding rl sc
    by (simp add: offline_worker_offline two_offline_turns_def turn_perfetto_def env_after_two_def
        quiet_env_def cfg_of_keys_def)
       (simp add: offline_worker_def loop_start_def configure_def new_worker_def)
  have one: "sample_count (loop_turn (turn_perfetto 9000 (Some (Some 60, QueryFailedDetail))) offline_worker) = 1"
    using offline_attempts_count_without_value [of offline_worker
        "turn_perfetto 9000 (Some (Some 60, QueryFailedDetail))" "Some 60" QueryFailedDetail]
    by (simp add: offline_worker_offline turn_perfetto_def)
       (simp add: offline_worker_def loop_start_def configure_def new_worker_def)
  show ?thesis
    using offline_attempts_count_without_value [of offline_worker _ _ _ two_offline_turns
        env_after_two "cfg_of_keys [''fps_app'']" params0 new_sampler_state] pre rl sc one
    by (simp add: new_sampler_state_def)
qed

section \<open>The legacy frame counter\<close>






lemma sampler_cycle_cases:
  "sampler_cycle P env st =
     (let rd = read_cfg (c_read_path env) (cfg_path_mode st);
          r = resolve_cfg (cfg_of_text (json_loads P) (cfg_text rd))
                (st\<lparr>cfg_path_mode := cfg_path_mode_after rd\<rparr>)
      in if \<not> cfg_enabled (fst r) \<or> cfg_target_pkg (fst r) = [] then (Waiting, enter_idle (snd r))
         else sampling_cycle P env (fst r) (snd r))"
  by (simp add: sampler_cycle_def Let_def split_beta)

lemma sampling_cycle_not_waiting: "fst (sampling_cycle P env eff st) \<noteq> Waiting"
  by (simp add: sampling_cycle_def Let_def split_beta)







subsection \<open>CPU percentages\<close>

lemma clamp_pct: "0 \<le> max 0 (min 100 (x::real)) \<and> max 0 (min 100 x) \<le> 100"
  by simp

lemma sample_cpu_range:
  "snd (fst (sample_pid_and_cpu want_cpu want_pss now_ms hz0 cores1 pidof stat cs)) = Some p \<Longrightarrow>
   0 \<le> p \<and> p \<le> 100"
  by (auto simp: sample_pid_and_cpu_def Let_def
      split: if_splits outcome.splits option.splits prod.splits)

lemma parse_cpu_total_range:
  "fst (parse_cpu_total pint parts prev) = Some q \<Longrightarrow> 0 \<le> q \<and> q \<le> 100"
  by (auto simp: parse_cpu_total_def Let_def split: if_splits option.splits prod.splits)

lemma sample_cpu_computed:
  assumes "want_cpu" "pidof = Returns (Some pid)" "pid \<noteq> []" "stat = Returns (Some ticks)"
    "cpu_prev_ticks cs = Some prev_ticks" "cpu_prev_t_ms cs = Some prev_t_ms"
  shows "\<exists>p. snd (fst (sample_pid_and_cpu want_cpu want_pss now_ms hz0 cores1 pidof stat cs)) = Some p"
  using assms by (simp add: sample_pid_and_cpu_def Let_def)

lemma parse_cpu_total_computed:
  assumes "length toks \<ge> 7" "map pint (take 7 toks) = map Some vals"
    "ct_prev_total prev = Some prev_total" "ct_prev_idle prev = Some prev_idle"
    "sum_list vals > prev_total"
  shows "\<exists>q. fst (parse_cpu_total pint (''cpu'' # toks) prev) = Some q"
  using assms by (auto simp: parse_cpu_total_def Let_def)

text \<open>
  C6. Whenever the process CPU percentage or the total CPU percentage is computed it lies
  in \<open>[0, 100]\<close>; it is computed once a previous sample is known (for the total, once the
  aggregate count has grown).
\<close>

theorem cpu_percentages_in_range:
  "(snd (fst (sample_pid_and_cpu want_cpu want_pss now_ms hz0 (max 1 cores0) pidof stat cs)) = Some p
      \<longrightarrow> 0 \<le> p \<and> p \<le> 100) \<and>
   (fst (parse_cpu_total pint parts prev) = Some q \<longrightarrow> 0 \<le> q \<and> q \<le> 100) \<and>
   (want_cpu \<and> pidof = Returns (Some pid) \<and> pid \<noteq> [] \<and> stat = Returns (Some ticks) \<and>
    cpu_prev_ticks cs = Some prev_ticks \<and> cpu_prev_t_ms cs = Some prev_t_ms \<and> prev_ticks \<le> ticks
      \<longrightarrow> (\<exists>p'. snd (fst (sample_pid_and_cpu want_cpu want_pss now_ms hz0 (max 1 cores0) pidof stat cs))
                  = Some p' \<and> 0 \<le> p' \<and> p' \<le> 100)) \<and>
   (length toks \<ge> 7 \<and> map pint (take 7 toks) = map Some vals \<and>
    ct_prev_total prev = Some prev_total \<and> ct_prev_idle prev = Some prev_idle \<and>
    prev_total < sum_list vals
      \<longrightarrow> (\<exists>q'. fst (parse_cpu_total pint (''cpu'' # toks) prev) = Some q' \<and> 0 \<le> q' \<and> q' \<le> 100))"
proof (intro conjI impI)
  assume "snd (fst (sample_pid_and_cpu want_cpu want_pss now_ms hz0 (max 1 cores0) pidof stat cs)) = Some p"
  then show "0 \<le> p" and "p \<le> 100" using sample_cpu_range by blast+
next
  assume "fst (parse_cpu_total pint parts prev) = Some q"
  then show "0 \<le> q" and "q \<le> 100" using parse_cpu_total_range by blast+
next
  assume "want_cpu \<and> pidof = Returns (Some pid) \<and> pid \<noteq> [] \<and> stat = Returns (Some ticks) \<and>
    cpu_prev_ticks cs = Some prev_ticks \<and> cpu_prev_t_ms cs = Some prev_t_ms \<and> prev_ticks \<le> ticks"
  then obtain p' where
    "snd (fst (sample_pid_and_cpu want_cpu want_pss now_ms hz0 (max 1 cores0) pidof stat cs)) = Some p'"
    using sample_cpu_computed [of want_cpu pidof pid stat ticks cs prev_ticks prev_t_ms] by blast
  then show "\<exists>p'. snd (fst (sample_pid_and_cpu want_cpu want_pss now_ms hz0 (max 1 cores0) pidof stat cs))
                  = Some p' \<and> 0 \<le> p' \<and> p' \<le> 100"
    using sample_cpu_range by blast
next
  assume "length toks \<ge> 7 \<and> map pint (take 7 toks) = map Some vals \<and>
    ct_prev_total prev = Some prev_total \<and> ct_prev_idle prev = Some prev_idle \<and>
    prev_total < sum_list vals"
  then obtain q' where "fst (parse_cpu_total pint (''cpu'' # toks) prev) = Some q'"
    using parse_cpu_total_computed [of toks pint vals prev prev_total prev_idle] by blast
  then show "\<exists>q'. fst (parse_cpu_total pint (''cpu'' # toks) prev) = Some q' \<and> 0 \<le> q' \<and> q' \<le> 100"
    using parse_cpu_total_range by blast
qed

lemma stat_tokens_parsed: "map dec_int (take 7 stat_tokens) = map Some [300, 0, 100, 1000, 0, 0, 0]"
  by (simp add: stat_tokens_def dec_int_def)

lemma cpu_seen_25:
  "snd (fst (sample_pid_and_cpu True False 11000 100 (max 1 8) (Returns (Some ''4242''))
      (Returns (Some 1200)) cpu_seen)) = Some 25"
  by (simp add: sample_pid_and_cpu_def cpu_seen_def Let_def)

lemma cpu_seen_100:
  "snd (fst (sample_pid_and_cpu True False 11000 100 (max 1 0) (Returns (Some ''4242''))
      (Returns (Some 1200)) cpu_seen)) = Some 100"
  by (simp add: sample_pid_and_cpu_def cpu_seen_def Let_def)

lemma cpu_total_50:
  "fst (parse_cpu_total dec_int (''cpu'' # stat_tokens) cpu_total_seen) = Some 50"
  by (simp add: parse_cpu_total_def stat_tokens_parsed [simplified] cpu_total_seen_def Let_def)
     (simp add: stat_tokens_def dec_int_def)

theorem cpu_percentages_in_range_witness:
  "snd (fst (sample_pid_and_cpu True False 11000 100 (max 1 8) (Returns (Some ''4242''))
      (Returns (Some 1200)) cpu_seen)) = Some 25 \<and>
   snd (fst (sample_pid_and_cpu True False 11000 100 (max 1 0) (Returns (Some ''4242''))
      (Returns (Some 1200)) cpu_seen)) = Some 100 \<and>
   fst (parse_cpu_total dec_int (''cpu'' # stat_tokens) cpu_total_seen) = Some 50 \<and>
   (0::real) \<le> 25 \<and> (25::real) \<le> 100 \<and> (0::real) \<le> 50 \<and> (50::real) \<le> 100"
  using cpu_percentages_in_range [of True False 11000 100 8 "Returns (Some ''4242'')"
      "Returns (Some 1200)" cpu_seen 25 dec_int "''cpu'' # stat_tokens" cpu_total_seen 50
      "''4242''" 1200 1000 10000 stat_tokens "[300, 0, 100, 1000, 0, 0, 0]" 1000 800]
    cpu_seen_25 cpu_seen_100 cpu_total_50
  by simp

section \<open>The two paths of the configuration and of the metrics\<close>

lemma read_cfg_cached_hit:
  assumes "m \<noteq> PathUnset" "rd m = Inr t"
  shows "read_cfg rd m =
           \<lparr>cfg_text = strip t, cfg_source = source_of m, cfg_path_mode_after = m, cfg_probed = [m]\<rparr>"
  using assms by (cases m) (simp_all add: read_cfg_def path_order_def Let_def)

lemma read_cfg_success:
  assumes "read_succeeded (read_cfg rd m0)"
  shows "\<exists>t. rd (cfg_path_mode_after (read_cfg rd m0)) = Inr t \<and>
             cfg_text (read_cfg rd m0) = strip t \<and>
             cfg_path_mode_after (read_cfg rd m0) \<noteq> PathUnset"
  using assms
  by (cases m0; cases "rd External"; cases "rd RunAs")
     (auto simp: read_cfg_def path_order_def read_succeeded_def source_of_def Let_def split: if_splits)

lemma write_metrics_cached_hit:
  assumes "m \<noteq> PathUnset" "wr m = None"
  shows "write_metrics wr m = \<lparr>wrote = True, metrics_path_mode_after = m, write_probed = [m]\<rparr>"
  using assms by (cases m) (simp_all add: write_metrics_def path_order_def Let_def)

lemma write_metrics_success:
  assumes "wrote (write_metrics wr m0)"
  shows "wr (metrics_path_mode_after (write_metrics wr m0)) = None \<and>
         metrics_path_mode_after (write_metrics wr m0) \<noteq> PathUnset"
  using assms
  by (cases m0; cases "wr External"; cases "wr RunAs")
     (auto simp: write_metrics_def path_order_def Let_def split: if_splits)

lemma first_probe_is_cached:
  assumes "m \<noteq> PathUnset"
  shows "hd (cfg_probed (read_cfg rd m)) = m" and "hd (write_probed (write_metrics wr m)) = m"
  using assms
  by (cases m; cases "rd m"; cases "wr m";
      auto simp: read_cfg_def write_metrics_def path_order_def Let_def split: if_splits sum.splits option.splits)+

lemma resolve_cfg_path_modes:
  "cfg_path_mode (snd (resolve_cfg c st)) = cfg_path_mode st"
  "metrics_path_mode (snd (resolve_cfg c st)) = metrics_path_mode st"
  by (simp_all add: resolve_cfg_def Let_def)

lemma sampling_cycle_path_modes:
  "cfg_path_mode (snd (sampling_cycle P env eff st)) = cfg_path_mode st"
  "metrics_path_mode (snd (sampling_cycle P env eff st)) =
     metrics_path_mode_after (write_metrics (c_write_path env) (metrics_path_mode st))"
  by (simp_all add: sampling_cycle_def Let_def split_beta)

lemma sampler_cycle_cfg_path_mode:
  "cfg_path_mode (snd (sampler_cycle P env st)) =
     cfg_path_mode_after (read_cfg (c_read_path env) (cfg_path_mode st))"
  by (simp add: sampler_cycle_cases Let_def enter_idle_def resolve_cfg_path_modes
      sampling_cycle_path_modes)

lemma read_cfg_failure_keeps_mode:
  assumes "\<not> read_succeeded (read_cfg rd m0)"
  shows "cfg_path_mode_after (read_cfg rd m0) = m0"
  using assms
  by (cases m0; cases "rd External"; cases "rd RunAs")
     (auto simp: read_cfg_def path_order_def read_succeeded_def source_of_def Let_def split: if_splits)

lemma write_metrics_failure_keeps_mode:
  assumes "\<not> wrote (write_metrics wr m0)"
  shows "metrics_path_mode_after (write_metrics wr m0) = m0"
  using assms
  by (cases m0; cases "wr External"; cases "wr RunAs")
     (auto simp: write_metrics_def path_order_def Let_def split: if_splits)

lemma failing_reads_keep_mode:
  "\<forall>r \<in> set rds. \<not> read_succeeded (read_cfg r p) \<Longrightarrow> mode_after_reads rds p = p"
  by (induction rds) (simp_all add: read_cfg_failure_keeps_mode)

lemma failing_writes_keep_mode:
  "\<forall>w \<in> set wrs. \<not> wrote (write_metrics w p) \<Longrightarrow> mode_after_writes wrs p = p"
  by (induction wrs) (simp_all add: write_metrics_failure_keeps_mode)

lemma sampler_cycle_metrics_path_mode:
  "metrics_path_mode (snd (sampler_cycle P env st)) =
     (if fst (sampler_cycle P env st) = Waiting then metrics_path_mode st
      else metrics_path_mode_after (write_metrics (c_write_path env) (metrics_path_mode st)))"
  by (simp add: sampler_cycle_cases Let_def enter_idle_def resolve_cfg_path_modes
      sampling_cycle_path_modes sampling_cycle_not_waiting)

text \<open>
  C8. For the configuration read and for the metrics write alike: when the cached path
  succeeds it is the only path the cycle touches and it stays cached; a path that has
  succeeded is the first one the next cycle tries; reading (or writing) again in the same
  surroundings after a success touches the cached path only, keeps the mode and gives the
  same text. A cycle in which no path succeeds keeps the cached mode, so that after a
  success and any number of failed cycles the path that succeeded is still the first one
  tried; a cached path is always the first one tried. The loop stores the read mode each
  cycle and the write mode each sampling cycle; an idle cycle leaves the write mode alone.
\<close>

theorem path_mode_cached:
  "(m \<noteq> PathUnset \<and> rd m = Inr t
      \<longrightarrow> cfg_probed (read_cfg rd m) = [m] \<and> cfg_path_mode_after (read_cfg rd m) = m) \<and>
   (m \<noteq> PathUnset \<and> wr m = None
      \<longrightarrow> write_probed (write_metrics wr m) = [m] \<and> metrics_path_mode_after (write_metrics wr m) = m) \<and>
   (read_succeeded (read_cfg rd m0)
      \<longrightarrow> hd (cfg_probed (read_cfg rd' (cfg_path_mode_after (read_cfg rd m0)))) =
            cfg_path_mode_after (read_cfg rd m0) \<and>
          cfg_probed (read_cfg rd (cfg_path_mode_after (read_cfg rd m0))) =
            [cfg_path_mode_after (read_cfg rd m0)] \<and>
          cfg_path_mode_after (read_cfg rd (cfg_path_mode_after (read_cfg rd m0))) =
            cfg_path_mode_after (read_cfg rd m0) \<and>
          cfg_text (read_cfg rd (cfg_path_mode_after (read_cfg rd m0))) = cfg_text (read_cfg rd m0)) \<and>
   (wrote (write_metrics wr m0)
      \<longrightarrow> hd (write_probed (write_metrics wr' (metrics_path_mode_after (write_metrics wr m0)))) =
            metrics_path_mode_after (write_metrics wr m0) \<and>
          write_probed (write_metrics wr (metrics_path_mode_after (write_metrics wr m0))) =
            [metrics_path_mode_after (write_metrics wr m0)] \<and>
          metrics_path_mode_after (write_metrics wr (metrics_path_mode_after (write_metrics wr m0))) =
            metrics_path_mode_after (write_metrics wr m0)) \<and>
   cfg_path_mode (snd (sampler_cycle P env st)) =
     cfg_path_mode_after (read_cfg (c_read_path env) (cfg_path_mode st)) \<and>
   metrics_path_mode (snd (sampling_cycle P env eff st)) =
     metrics_path_mode_after (write_metrics (c_write_path env) (metrics_path_mode st)) \<and>
   (\<not> read_succeeded (read_cfg rd m0) \<longrightarrow> cfg_path_mode_after (read_cfg rd m0) = m0) \<and>
   (\<not> wrote (write_metrics wr m0) \<longrightarrow> metrics_path_mode_after (write_metrics wr m0) = m0) \<and>
   (m \<noteq> PathUnset
      \<longrightarrow> hd (cfg_probed (read_cfg rd m)) = m \<and> hd (write_probed (write_metrics wr m)) = m) \<and>
   (read_succeeded (read_cfg rd m0) \<and>
    (\<forall>r \<in> set rds. \<not> read_succeeded (read_cfg r (cfg_path_mode_after (read_cfg rd m0))))
      \<longrightarrow> mode_after_reads rds (cfg_path_mode_after (read_cfg rd m0)) =
            cfg_path_mode_after (read_cfg rd m0) \<and>
          hd (cfg_probed (read_cfg rd' (mode_after_reads rds (cfg_path_mode_after (read_cfg rd m0))))) =
            cfg_path_mode_after (read_cfg rd m0)) \<and>
   (wrote (write_metrics wr m0) \<and>
    (\<forall>w \<in> set wrs. \<not> wrote (write_metrics w (metrics_path_mode_after (write_metrics wr m0))))
      \<longrightarrow> mode_after_writes wrs (metrics_path_mode_after (write_metrics wr m0)) =
            metrics_path_mode_after (write_metrics wr m0) \<and>
          hd (write_probed (write_metrics wr'
                (mode_after_writes wrs (metrics_path_mode_after (write_metrics wr m0))))) =
            metrics_path_mode_after (write_metrics wr m0)) \<and>
   metrics_path_mode (snd (sampler_cycle P env st)) =
     (if fst (sampler_cycle P env st) = Waiting then metrics_path_mode st
      else metrics_path_mode_after (write_metrics (c_write_path env) (metrics_path_mode st)))"
proof (intro conjI impI)
  assume "m \<noteq> PathUnset \<and> rd m = Inr t"
  then show "cfg_probed (read_cfg rd m) = [m]" and "cfg_path_mode_after (read_cfg rd m) = m"
    by (simp_all add: read_cfg_cached_hit)
next
  assume "m \<noteq> PathUnset \<and> wr m = None"
  then show "write_probed (write_metrics wr m) = [m]"
    and "metrics_path_mode_after (write_metrics wr m) = m"
    by (simp_all add: write_metrics_cached_hit)
next
  assume a: "read_succeeded (read_cfg rd m0)"
  let ?p = "cfg_path_mode_after (read_cfg rd m0)"
  obtain t' where t': "rd ?p = Inr t'" "cfg_text (read_cfg rd m0) = strip t'" "?p \<noteq> PathUnset"
    using read_cfg_success [OF a] by blast
  show "hd (cfg_probed (read_cfg rd' ?p)) = ?p" using t'(3) by (rule first_probe_is_cached(1))
  show "cfg_probed (read_cfg rd ?p) = [?p]" using t' by (simp add: read_cfg_cached_hit)
  show "cfg_path_mode_after (read_cfg rd ?p) = ?p" using t' by (simp add: read_cfg_cached_hit)
  show "cfg_text (read_cfg rd ?p) = cfg_text (read_cfg rd m0)"
    using t' by (simp add: read_cfg_cached_hit)
next
  assume a: "wrote (write_metrics wr m0)"
  let ?p = "metrics_path_mode_after (write_metrics wr m0)"
  have p: "wr ?p = None" "?p \<noteq> PathUnset" using write_metrics_success [OF a] by simp_all
  show "hd (write_probed (write_metrics wr' ?p)) = ?p" using p(2) by (rule first_probe_is_cached(2))
  show "write_probed (write_metrics wr ?p) = [?p]" using p by (simp add: write_metrics_cached_hit)
  show "metrics_path_mode_after (write_metrics wr ?p) = ?p"
    using p by (simp add: write_metrics_cached_hit)
next
  show "cfg_path_mode (snd (sampler_cycle P env st)) =
     cfg_path_mode_after (read_cfg (c_read_path env) (cfg_path_mode st))"
    by (rule sampler_cycle_cfg_path_mode)
  show "metrics_path_mode (snd (sampling_cycle P env eff st)) =
     metrics_path_mode_after (write_metrics (c_write_path env) (metrics_path_mode st))"
    by (rule sampling_cycle_path_modes(2))
  show "metrics_path_mode (snd (sampler_cycle P env st)) =
     (if fst (sampler_cycle P env st) = Waiting then metrics_path_mode st
      else metrics_path_mode_after (write_metrics (c_write_path env) (metrics_path_mode st)))"
    by (rule sampler_cycle_metrics_path_mode)
next
  assume "\<not> read_succeeded (read_cfg rd m0)"
  then show "cfg_path_mode_after (read_cfg rd m0) = m0" by (rule read_cfg_failure_keeps_mode)
next
  assume "\<not> wrote (write_metrics wr m0)"
  then show "metrics_path_mode_after (write_metrics wr m0) = m0"
    by (rule write_metrics_failure_keeps_mode)
next
  assume "m \<noteq> PathUnset"
  then show "hd (cfg_probed (read_cfg rd m)) = m" and "hd (write_probed (write_metrics wr m)) = m"
    using first_probe_is_cached by blast+
next
  assume a: "read_succeeded (read_cfg rd m0) \<and>
    (\<forall>r \<in> set rds. \<not> read_succeeded (read_cfg r (cfg_path_mode_after (read_cfg rd m0))))"
  let ?p = "cfg_path_mode_after (read_cfg rd m0)"
  have p: "?p \<noteq> PathUnset" using read_cfg_success a by blast
  show k: "mode_after_reads rds ?p = ?p" using a by (intro failing_reads_keep_mode) blast
  show "hd (cfg_probed (read_cfg rd' (mode_after_reads rds ?p))) = ?p"
    unfolding k using p by (rule first_probe_is_cached(1))
next
  assume a: "wrote (write_metrics wr m0) \<and>
    (\<forall>w \<in> set wrs. \<not> wrote (write_metrics w (metrics_path_mode_after (write_metrics wr m0))))"
  let ?p = "metrics_path_mode_after (write_metrics wr m0)"
  have p: "?p \<noteq> PathUnset" using write_metrics_success a by blast
  show k: "mode_after_writes wrs ?p = ?p" using a by (intro failing_writes_keep_mode) blast
  show "hd (write_probed (write_metrics wr' (mode_after_writes wrs ?p))) = ?p"
    unfolding k using p by (rule first_probe_is_cached(2))
qed

lemma strip_cfg_text_on: "strip (cfg_text_on @ [CHR 0x0A]) = cfg_text_on"
  by (simp add: strip_def cfg_text_on_def isspace_def)

lemma read_runas_only:
  "read_cfg runas_only PathUnset =
     \<lparr>cfg_text = cfg_text_on, cfg_source = SourceRunAs, cfg_path_mode_after = RunAs,
      cfg_probed = [External, RunAs]\<rparr>"
  "read_cfg runas_only RunAs =
     \<lparr>cfg_text = cfg_text_on, cfg_source = SourceRunAs, cfg_path_mode_after = RunAs,
      cfg_probed = [RunAs]\<rparr>"
  by (simp_all add: read_cfg_def path_order_def runas_only_def missing_file_def source_of_def
      strip_cfg_text_on Let_def)

lemma write_runas_only_runs:
  "write_metrics write_runas_only PathUnset =
     \<lparr>wrote = True, metrics_path_mode_after = RunAs, write_probed = [External, RunAs]\<rparr>"
  "write_metrics write_runas_only RunAs =
     \<lparr>wrote = True, metrics_path_mode_after = RunAs, write_probed = [RunAs]\<rparr>"
  by (simp_all add: write_metrics_def path_order_def write_runas_only_def missing_file_def Let_def)

lemma failing_runs:
  "read_cfg failing_read RunAs =
     \<lparr>cfg_text = [], cfg_source = SourceMissing, cfg_path_mode_after = RunAs,
      cfg_probed = [RunAs, External]\<rparr>"
  "write_metrics failing_write RunAs =
     \<lparr>wrote = False, metrics_path_mode_after = RunAs, write_probed = [RunAs, External]\<rparr>"
  by (simp_all add: read_cfg_def write_metrics_def path_order_def failing_read_def failing_write_def
      missing_file_def Let_def)

theorem path_mode_cached_witness:
  "cfg_probed (read_cfg runas_only PathUnset) = [External, RunAs] \<and>
   cfg_path_mode_after (read_cfg runas_only PathUnset) = RunAs \<and>
   cfg_probed (read_cfg runas_only RunAs) = [RunAs] \<and>
   cfg_path_mode_after (read_cfg runas_only RunAs) = RunAs \<and>
   cfg_text (read_cfg runas_only RunAs) = cfg_text (read_cfg runas_only PathUnset) \<and>
   write_probed (write_metrics write_runas_only PathUnset) = [External, RunAs] \<and>
   write_probed (write_metrics write_runas_only RunAs) = [RunAs] \<and>
   metrics_path_mode_after (write_metrics write_runas_only RunAs) = RunAs \<and>
   cfg_probed (read_cfg failing_read RunAs) = [RunAs, External] \<and>
   cfg_path_mode_after (read_cfg failing_read RunAs) = RunAs \<and>
   mode_after_reads [failing_read, failing_read, failing_read]
     (cfg_path_mode_after (read_cfg runas_only PathUnset)) = RunAs \<and>
   mode_after_writes [failing_write, failing_write]
     (metrics_path_mode_after (write_metrics write_runas_only PathUnset)) = RunAs"
proof -
  have s: "read_succeeded (read_cfg runas_only PathUnset)"
    by (simp add: read_runas_only read_succeeded_def)
  have w: "wrote (write_metrics write_runas_only PathUnset)"
    by (simp add: write_runas_only_runs)
  have hit: "RunAs \<noteq> PathUnset \<and> runas_only RunAs = Inr (cfg_text_on @ [CHR 0x0A])"
    by (simp add: runas_only_def)
  have whit: "RunAs \<noteq> PathUnset \<and> write_runas_only RunAs = None"
    by (simp add: write_runas_only_def)
  have rf: "\<forall>r \<in> set [failing_read, failing_read, failing_read].
      \<not> read_succeeded (read_cfg r (cfg_path_mode_after (read_cfg runas_only PathUnset)))"
    by (simp add: read_runas_only failing_runs read_succeeded_def)
  have wf: "\<forall>w \<in> set [failing_write, failing_write].
      \<not> wrote (write_metrics w (metrics_path_mode_after (write_metrics write_runas_only PathUnset)))"
    by (simp add: write_runas_only_runs failing_runs)
  note inst = path_mode_cached [where m = RunAs and rd = runas_only
      and t = "cfg_text_on @ [CHR 0x0A]" and wr = write_runas_only and ?m0.0 = PathUnset
      and rds = "[failing_read, failing_read, failing_read]"
      and wrs = "[failing_write, failing_write]"]
  have "cfg_probed (read_cfg runas_only RunAs) = [RunAs]"
    and "cfg_path_mode_after (read_cfg runas_only RunAs) = RunAs"
    and "write_probed (write_metrics write_runas_only RunAs) = [RunAs]"
    and "metrics_path_mode_after (write_metrics write_runas_only RunAs) = RunAs"
    using inst hit whit by blast+
  moreover have "cfg_text (read_cfg runas_only RunAs) = cfg_text (read_cfg runas_only PathUnset)"
    using inst s by (simp add: read_runas_only)
  moreover have "mode_after_reads [failing_read, failing_read, failing_read]
     (cfg_path_mode_after (read_cfg runas_only PathUnset)) =
     cfg_path_mode_after (read_cfg runas_only PathUnset)"
    using inst s rf by blast
  moreover have "mode_after_writes [failing_write, failing_write]
     (metrics_path_mode_after (write_metrics write_runas_only PathUnset)) =
     metrics_path_mode_after (write_metrics write_runas_only PathUnset)"
    using inst w wf by blast
  ultimately show ?thesis by (simp add: read_runas_only write_runas_only_runs failing_runs)
qed

subsection \<open>Falling back on the last good configuration\<close>







lemma run_cycles_length: "length (fst (run_cycles P envs st)) = length envs"
  by (induction envs arbitrary: st) (simp_all add: split_beta)










section \<open>Going idle and the rate state\<close>

lemma enter_idle_rate_state:
  "cpu_state (enter_idle st) = cpu_state st"
  "cpu_total_state (enter_idle st) = (cpu_total_state st)\<lparr>ct_prev_total := None, ct_prev_idle := None\<rparr>"
  "net_state (enter_idle st) =
     (net_state st)\<lparr>net_prev_rx_bytes := None, net_prev_tx_bytes := None, net_prev_t_ms := None\<rparr>"
  by (simp_all add: enter_idle_def)

lemma first_cycle_after_idle:
  "fst (sampling_cycle params_json env_busy cfg_on (enter_idle busy_state)) =
     Sampled \<lparr>cpu_fg_app_pct = Some 25, fps_app = None, cpu_total_pct = None, net_kbps = None\<rparr> True"
proof -
  have cpu: "sample_pid_and_cpu True False 11000 100 8 (Returns (Some ''4242'')) (Returns (Some 1200)) cpu_seen
      = ((Some ''4242'', Some 25), \<lparr>cpu_prev_ticks = Some 1200, cpu_prev_t_ms = Some 11000\<rparr>)"
    by (simp add: sample_pid_and_cpu_def cpu_seen_def Let_def)
  have ct: "fst (parse_cpu_total dec_int (''cpu'' # stat_tokens) new_CpuTotalState) = None"
    by (simp add: parse_cpu_total_def new_CpuTotalState_def Let_def split_beta)
  have net: "fst (sample_net True 11000 (Returns (Some (5024, 6024))) new_NetState) = None"
    by (simp add: sample_net_def new_NetState_def)
  have wr: "wrote (write_metrics (\<lambda>p. None) PathUnset)"
    by (simp add: write_metrics_def path_order_def Let_def)
  show ?thesis
    using cpu ct net wr
    by (simp add: sampling_cycle_def Let_def split_beta enter_idle_def busy_state_def env_busy_def
        quiet_env_def cfg_on_def cfg_of_keys_def params_json_def sampler_setup_def
        new_sampler_state_def sample_fps_def cpu_total_seen_def net_seen_def
        new_CpuTotalState_def new_NetState_def)
qed

text \<open>
  C5. Going idle resets the total-CPU and the network accumulators and leaves the
  process-CPU accumulator as it was: the first sample after monitoring is enabled again
  carries no total CPU and no network rate, and it carries a process CPU percentage
  computed against the ticks seen before the idle period.
\<close>

theorem idle_keeps_process_cpu_state:
  "cpu_state (enter_idle st) = cpu_state st \<and>
   cpu_total_state (enter_idle st) = (cpu_total_state st)\<lparr>ct_prev_total := None, ct_prev_idle := None\<rparr> \<and>
   net_state (enter_idle st) =
     (net_state st)\<lparr>net_prev_rx_bytes := None, net_prev_tx_bytes := None, net_prev_t_ms := None\<rparr> \<and>
   fst (sampling_cycle params_json env_busy cfg_on (enter_idle busy_state)) =
     Sampled \<lparr>cpu_fg_app_pct = Some 25, fps_app = None, cpu_total_pct = None, net_kbps = None\<rparr> True"
  using enter_idle_rate_state first_cycle_after_idle by simp

section \<open>Offline strategy: the ranked filters\<close>

lemma foldl_snoc_map: "foldl (\<lambda>fs c. fs @ [g c]) acc xs = acc @ map g xs"
  by (induction xs arbitrary: acc) simp_all

lemma replace_quote_concat:
  "replace_quote s = concat (map (\<lambda>c. if c = CHR 0x27 then [CHR 0x27, CHR 0x27] else [c]) s)"
  by (induction s) simp_all

lemma sql_quote_literal: "sql_quote s = sql_literal s"
  by (simp add: sql_quote_def sql_literal_def replace_quote_concat)

lemma filter_kinds:
  "layer_eq c = exact_match c"
  "layer_like c = substring_match ''layer_like'' c"
  "pkg_like pkg = substring_match ''pkg_like'' pkg"
  "unfiltered = no_filter"
  by (simp_all add: layer_eq_def layer_like_def pkg_like_def unfiltered_def exact_match_def
      substring_match_def no_filter_def sql_quote_literal)

lemma remdups_snoc: "remdups (zs @ [s]) = filter (\<lambda>z. z \<noteq> s) (remdups zs) @ [s]"
  by (induction zs) auto

lemma first_occurrences_Cons:
  "rev (remdups (rev (s # ys))) = s # filter (\<lambda>z. z \<noteq> s) (rev (remdups (rev ys)))"
  by (simp add: remdups_snoc rev_filter)

lemma add_cands_first_occurrences:
  "add_cands acc xs =
     acc @ filter (\<lambda>s. s \<notin> set acc) (rev (remdups (rev (filter (\<lambda>s. s \<noteq> []) (map strip xs)))))"
proof (induction xs arbitrary: acc)
  case Nil
  then show ?case by simp
next
  case (Cons x xs)
  let ?F = "rev (remdups (rev (filter (\<lambda>s. s \<noteq> []) (map strip xs))))"
  show ?case
  proof (cases "strip x = []")
    case True
    then show ?thesis using Cons.IH [of acc] by simp
  next
    case ne: False
    have F: "rev (remdups (rev (filter (\<lambda>s. s \<noteq> []) (map strip (x # xs))))) =
             strip x # filter (\<lambda>z. z \<noteq> strip x) ?F"
      using ne first_occurrences_Cons [of "strip x" "filter (\<lambda>s. s \<noteq> []) (map strip xs)"] by simp
    show ?thesis
    proof (cases "strip x \<in> set acc")
      case True
      have "filter (\<lambda>s. s \<notin> set acc) (filter (\<lambda>z. z \<noteq> strip x) ?F) = filter (\<lambda>s. s \<notin> set acc) ?F"
        using True by (auto intro: filter_cong)
      then show ?thesis unfolding F using True ne Cons.IH [of acc] by (simp add: Let_def)
    next
      case False
      have "filter (\<lambda>s. s \<notin> set (acc @ [strip x])) ?F =
            filter (\<lambda>s. s \<notin> set acc) (filter (\<lambda>z. z \<noteq> strip x) ?F)"
        by (auto intro: filter_cong)
      then show ?thesis
        unfolding F using False ne Cons.IH [of "acc @ [strip x]"] by (simp add: Let_def)
    qed
  qed
qed

lemma add_cands_candidates: "take 10 (add_cands [] xs) = candidates_in_order xs"
  by (simp add: add_cands_first_occurrences candidates_in_order_def)

lemma build_filters_ranked:
  "''layer_name'' \<in> set cols \<Longrightarrow>
   build_filters cols layer_hint layer_candidates pkg = ranked_filters layer_hint layer_candidates pkg"
  by (simp add: build_filters_def ranked_filters_def Let_def foldl_snoc_map filter_kinds
      add_cands_candidates del: add_cands.simps)

lemma try_filters_skip:
  "\<forall>f \<in> set pre. yields_nothing q table cols f \<Longrightarrow>
   \<exists>u'. try_filters q table cols dur u (pre @ rest) = try_filters q table cols dur u' rest"
proof (induction pre arbitrary: u)
  case Nil
  then show ?case by auto
next
  case (Cons f pre)
  obtain key where_sql human where f: "f = (key, where_sql, human)" by (cases f)
  have rest: "\<forall>f \<in> set pre. yields_nothing q table cols f" using Cons.prems by simp
  have yn: "yields_nothing q table cols f" using Cons.prems by simp
  show ?case
  proof (cases "q (query_sql table cols where_sql)")
    case QRaise
    then show ?thesis using yn f by (simp add: yields_nothing_def)
  next
    case QNoMatch
    then show ?thesis using Cons.IH [OF rest, of u] f by simp
  next
    case (QStats cnt min_ts max_ts)
    then have "cnt = 0" using yn f by (simp add: yields_nothing_def)
    then have step: "try_filters q table cols dur u ((f # pre) @ rest) =
        try_filters q table cols dur (if where_sql = [] then Some (cnt, min_ts, max_ts) else u)
          (pre @ rest)"
      using QStats f by (simp add: Let_def)
    show ?thesis
      unfolding step
      by (rule Cons.IH [OF rest])
  qed
qed

lemma try_filters_hit:
  assumes "q (query_sql table cols where_sql) = QStats cnt min_ts max_ts" "cnt > 0"
  shows "\<exists>u'. try_filters q table cols dur u ((key, where_sql, human) # post) =
            Inr (u', Some (fps_of_stats table human dur cnt min_ts max_ts))"
  using assms by (simp add: Let_def)

lemma try_filters_first_nonzero:
  assumes "\<forall>f \<in> set pre. yields_nothing q table cols f"
    "q (query_sql table cols where_sql) = QStats cnt min_ts max_ts" "cnt > 0"
  shows "\<exists>u'. try_filters q table cols dur u (pre @ (key, where_sql, human) # post) =
            Inr (u', Some (fps_of_stats table human dur cnt min_ts max_ts))"
proof -
  obtain u1 where "try_filters q table cols dur u (pre @ (key, where_sql, human) # post) =
      try_filters q table cols dur u1 ((key, where_sql, human) # post)"
    using try_filters_skip [OF assms(1)] by blast
  moreover obtain u2 where "try_filters q table cols dur u1 ((key, where_sql, human) # post) =
      Inr (u2, Some (fps_of_stats table human dur cnt min_ts max_ts))"
    using try_filters_hit [of q table cols where_sql cnt min_ts max_ts dur u1 key human post]
      assms(2,3) by blast
  ultimately show ?thesis by simp
qed

lemma perfetto_first_nonzero:
  assumes "trace_exists env" "tables env = Returns tbls" "tbls \<noteq> []"
    "table_cols env (choose_table tbls) = Returns cols"
    "build_filters cols layer_hint layer_candidates (strip target_pkg) =
       pre @ (key, where_sql, human) # post"
    "\<forall>f \<in> set pre. yields_nothing (tp_stats env) (choose_table tbls) cols f"
    "tp_stats env (query_sql (choose_table tbls) cols where_sql) = QStats cnt min_ts max_ts"
    "cnt > 0"
  shows "perfetto_fps_from_trace env target_pkg dur layer_hint layer_candidates =
           Inr (Some (fst (fps_of_stats (choose_table tbls) human dur cnt min_ts max_ts)),
                snd (fps_of_stats (choose_table tbls) human dur cnt min_ts max_ts))"
proof -
  obtain u' where "try_filters (tp_stats env) (choose_table tbls) cols dur None
        (pre @ (key, where_sql, human) # post) =
      Inr (u', Some (fps_of_stats (choose_table tbls) human dur cnt min_ts max_ts))"
    using try_filters_first_nonzero [of pre "tp_stats env" "choose_table tbls" cols where_sql
        cnt min_ts max_ts dur None key human post] assms(6,7,8) by blast
  then show ?thesis
    using assms(1,2,3,4,5) by (simp add: perfetto_fps_from_trace_def Let_def split_beta)
qed

text \<open>
  C4. On a table with a \<open>layer_name\<close> column the filters are, in this order: exact match
  on each layer-name candidate (\<^verbatim>\<open>layer_name = 'c'\<close>), substring match on each candidate
  (\<^verbatim>\<open>layer_name like '%c%'\<close>), substring match on the target identifier (when it is not
  empty), and no filter; the candidates are the first ten distinct non-empty stripped
  ones, in the order of their first occurrence. The first filter whose query gives a count
  above zero, every filter before it having answered with none, gives the returned rate.
\<close>

theorem filters_ranked_first_nonzero_wins:
  "(''layer_name'' \<in> set cols
      \<longrightarrow> build_filters cols layer_hint layer_candidates pkg =
            ranked_filters layer_hint layer_candidates pkg) \<and>
   (trace_exists env \<and> tables env = Returns tbls \<and> tbls \<noteq> [] \<and>
    table_cols env (choose_table tbls) = Returns cols \<and>
    build_filters cols layer_hint layer_candidates (strip target_pkg) =
       pre @ (key, where_sql, human) # post \<and>
    (\<forall>f \<in> set pre. yields_nothing (tp_stats env) (choose_table tbls) cols f) \<and>
    tp_stats env (query_sql (choose_table tbls) cols where_sql) = QStats cnt min_ts max_ts \<and>
    cnt > 0
      \<longrightarrow> perfetto_fps_from_trace env target_pkg dur layer_hint layer_candidates =
            Inr (Some (fst (fps_of_stats (choose_table tbls) human dur cnt min_ts max_ts)),
                 snd (fps_of_stats (choose_table tbls) human dur cnt min_ts max_ts)))"
  using build_filters_ranked perfetto_first_nonzero by blast

lemma example_filters:
  "build_filters frame_cols (Some []) [example_layer] (strip ''pkg'') =
     [layer_eq example_layer, layer_like example_layer, pkg_like ''pkg'', unfiltered]"
  by (simp add: build_filters_def frame_cols_def example_layer_def strip_def isspace_def Let_def)

lemma example_chosen: "choose_table [example_table] = example_table"
  by (simp add: choose_table_def example_table_def prefer_tables_def)

lemma example_sqls:
  "query_sql example_table frame_cols (fst (snd (layer_like example_layer))) \<noteq>
     query_sql example_table frame_cols (fst (snd (layer_eq example_layer)))"
  "query_sql example_table frame_cols (fst (snd (pkg_like ''pkg''))) \<noteq>
     query_sql example_table frame_cols (fst (snd (layer_eq example_layer)))"
  "query_sql example_table frame_cols (fst (snd (pkg_like ''pkg''))) \<noteq>
     query_sql example_table frame_cols (fst (snd (layer_like example_layer)))"
  "query_sql example_table frame_cols [] \<noteq>
     query_sql example_table frame_cols (fst (snd (layer_eq example_layer)))"
  "query_sql example_table frame_cols [] \<noteq>
     query_sql example_table frame_cols (fst (snd (layer_like example_layer)))"
  "query_sql example_table frame_cols [] \<noteq>
     query_sql example_table frame_cols (fst (snd (pkg_like ''pkg'')))"
  by (simp_all add: query_sql_def frame_cols_def layer_eq_def layer_like_def pkg_like_def
      example_layer_def sql_quote_def)

lemma example_query_texts:
  "map (\<lambda>f. query_sql example_table frame_cols (fst (snd f)))
     [layer_eq example_layer, layer_like example_layer, pkg_like ''pkg'', unfiltered] =
   [sql_exact_example, sql_like_example, sql_pkg_example, sql_unfiltered_example]"
  by (simp add: query_sql_def frame_cols_def example_table_def example_layer_def layer_eq_def
      layer_like_def pkg_like_def unfiltered_def sql_quote_def sql_exact_example_def
      sql_like_example_def sql_pkg_example_def sql_unfiltered_example_def)

lemma example_texts_differ:
  "sql_like_example \<noteq> sql_exact_example" "sql_unfiltered_example \<noteq> sql_exact_example"
  "sql_unfiltered_example \<noteq> sql_like_example" "sql_pkg_example \<noteq> sql_exact_example"
  "sql_pkg_example \<noteq> sql_like_example" "sql_pkg_example \<noteq> sql_unfiltered_example"
  by (simp_all add: sql_exact_example_def sql_like_example_def sql_pkg_example_def
      sql_unfiltered_example_def)

lemma fps_12: "fps_of_stats example_table human 1500 12 1000000000 2000000000 =
                 (12, SpanDetail example_table human 12 1000)"
  by (simp add: fps_of_stats_def Let_def)

lemma fps_40: "fps_of_stats example_table human 1500 40 1000000000 2000000000 =
                 (40, SpanDetail example_table human 40 1000)"
  by (simp add: fps_of_stats_def Let_def)

lemma trace_with_simps:
  "trace_exists (trace_with stats)" "tables (trace_with stats) = Returns [example_table]"
  "table_cols (trace_with stats) t = Returns frame_cols" "tp_stats (trace_with stats) = stats"
  by (simp_all add: trace_with_def)

theorem filters_ranked_first_nonzero_wins_witness:
  "build_filters frame_cols (Some []) [example_layer] ''pkg'' =
     [exact_match example_layer, substring_match ''layer_like'' example_layer,
      substring_match ''pkg_like'' ''pkg'', no_filter] \<and>
   map (\<lambda>f. query_sql example_table frame_cols (fst (snd f)))
     (build_filters frame_cols (Some []) [example_layer] ''pkg'') =
     [sql_exact_example, sql_like_example, sql_pkg_example, sql_unfiltered_example] \<and>
   map (\<lambda>f. snd (snd f)) (build_filters frame_cols (Some []) [example_layer] ''pkg'') =
     [''layer_eq=SurfaceView[pkg]#0'', ''layer_like=SurfaceView[pkg]#0'', ''pkg_like=pkg'',
      ''unfiltered''] \<and>
   perfetto_fps_from_trace (trace_with stats_like_12) ''pkg'' 1500 (Some []) [example_layer] =
     Inr (Some 12, SpanDetail example_table ''layer_like=SurfaceView[pkg]#0'' 12 1000)"
proof -
  let ?env = "trace_with stats_like_12"
  have q: "query_sql example_table frame_cols (fst (snd (layer_eq example_layer))) = sql_exact_example"
    "query_sql example_table frame_cols (fst (snd (layer_like example_layer))) = sql_like_example"
    using example_query_texts by simp_all
  have like: "layer_like example_layer =
      (''layer_name'', fst (snd (layer_like example_layer)), ''layer_like='' @ example_layer)"
    by (simp add: layer_like_def)
  have ln: "''layer_name'' \<in> set frame_cols" by (simp add: frame_cols_def)
  have b0: "build_filters frame_cols (Some []) [example_layer] ''pkg'' =
     [layer_eq example_layer, layer_like example_layer, pkg_like ''pkg'', unfiltered]"
    using example_filters by (simp add: strip_def isspace_def)
  have pre: "trace_exists ?env \<and> tables ?env = Returns [example_table] \<and> [example_table] \<noteq> [] \<and>
    table_cols ?env (choose_table [example_table]) = Returns frame_cols \<and>
    build_filters frame_cols (Some []) [example_layer] (strip ''pkg'') =
      [layer_eq example_layer] @
      (''layer_name'', fst (snd (layer_like example_layer)), ''layer_like='' @ example_layer) #
      [pkg_like ''pkg'', unfiltered] \<and>
    (\<forall>f \<in> set [layer_eq example_layer].
        yields_nothing (tp_stats ?env) (choose_table [example_table]) frame_cols f) \<and>
    tp_stats ?env (query_sql (choose_table [example_table]) frame_cols
        (fst (snd (layer_like example_layer)))) = QStats 12 1000000000 2000000000 \<and>
    (12::nat) > 0"
    unfolding example_chosen q
    using like example_texts_differ
    by (simp add: example_filters yields_nothing_def q stats_like_12_def trace_with_simps)
  note inst = filters_ranked_first_nonzero_wins [where env = ?env and target_pkg = "''pkg''"
        and tbls = "[example_table]" and cols = frame_cols and pkg = "''pkg''"
        and layer_hint = "Some []" and layer_candidates = "[example_layer]"
        and pre = "[layer_eq example_layer]" and key = "''layer_name''"
        and where_sql = "fst (snd (layer_like example_layer))"
        and human = "''layer_like='' @ example_layer"
        and post = "[pkg_like ''pkg'', unfiltered]" and cnt = 12 and min_ts = 1000000000
        and max_ts = 2000000000 and dur = 1500]
  have r: "perfetto_fps_from_trace ?env ''pkg'' 1500 (Some []) [example_layer] =
     Inr (Some 12, SpanDetail example_table ''layer_like=SurfaceView[pkg]#0'' 12 1000)"
    using inst pre unfolding example_chosen by (simp add: fps_12 example_layer_def)
  have rk: "build_filters frame_cols (Some []) [example_layer] ''pkg'' =
      ranked_filters (Some []) [example_layer] ''pkg''"
    using inst ln by blast
  have rv: "ranked_filters (Some []) [example_layer] ''pkg'' =
     [exact_match example_layer, substring_match ''layer_like'' example_layer,
      substring_match ''pkg_like'' ''pkg'', no_filter]"
    by (simp add: ranked_filters_def candidates_in_order_def example_layer_def strip_def
        isspace_def Let_def)
  have texts: "map (\<lambda>f. query_sql example_table frame_cols (fst (snd f)))
     (build_filters frame_cols (Some []) [example_layer] ''pkg'') =
     [sql_exact_example, sql_like_example, sql_pkg_example, sql_unfiltered_example]"
    unfolding b0 by (rule example_query_texts)
  have labels: "map (\<lambda>f. snd (snd f)) (build_filters frame_cols (Some []) [example_layer] ''pkg'') =
     [''layer_eq=SurfaceView[pkg]#0'', ''layer_like=SurfaceView[pkg]#0'', ''pkg_like=pkg'',
      ''unfiltered'']"
    unfolding b0
    by (simp add: layer_eq_def layer_like_def pkg_like_def unfiltered_def example_layer_def)
  show ?thesis using r rk rv texts labels by simp
qed

section \<open>Offline strategy: when only the unfiltered query counts frames\<close>

lemma build_filters_shape:
  "build_filters cols layer_hint layer_candidates pkg =
     butlast (build_filters cols layer_hint layer_candidates pkg) @ [unfiltered]"
  "\<forall>f \<in> set (butlast (build_filters cols layer_hint layer_candidates pkg)). fst (snd f) \<noteq> []"
  by (auto simp: build_filters_def Let_def foldl_snoc_map layer_eq_def layer_like_def pkg_like_def
      name_like_def butlast_append)

lemma try_filters_skip_keep:
  "\<forall>f \<in> set pre. yields_nothing q table cols f \<and> fst (snd f) \<noteq> [] \<Longrightarrow>
   try_filters q table cols dur u (pre @ rest) = try_filters q table cols dur u rest"
proof (induction pre)
  case Nil
  then show ?case by simp
next
  case (Cons f pre)
  obtain key where_sql human where f: "f = (key, where_sql, human)" by (cases f)
  have w: "where_sql \<noteq> []" and yn: "yields_nothing q table cols f" using Cons.prems f by simp_all
  have "try_filters q table cols dur u ((f # pre) @ rest) = try_filters q table cols dur u (pre @ rest)"
    using yn w f
    by (cases "q (query_sql table cols where_sql)") (simp_all add: yields_nothing_def Let_def)
  then show ?case using Cons by simp
qed

lemma try_filters_unfiltered:
  assumes "q (query_sql table cols []) = QStats cnt0 min_ts max_ts"
  shows "try_filters q table cols dur None [unfiltered] =
           (if cnt0 > 0
            then Inr (Some (cnt0, min_ts, max_ts),
                      Some (fps_of_stats table ''unfiltered'' dur cnt0 min_ts max_ts))
            else Inr (Some (cnt0, min_ts, max_ts), None))"
  using assms by (simp add: unfiltered_def Let_def)

lemma try_filters_none_zero:
  "try_filters q table cols dur u fs = Inr (Some (n, a, b), None) \<Longrightarrow>
   u = Some (n, a, b) \<or> n = 0"
proof (induction fs arbitrary: u)
  case Nil
  then show ?case by simp
next
  case (Cons f fs)
  obtain key where_sql human where f: "f = (key, where_sql, human)" by (cases f)
  show ?case
  proof (cases "q (query_sql table cols where_sql)")
    case QRaise
    then show ?thesis using Cons.prems f by simp
  next
    case QNoMatch
    then show ?thesis using Cons.prems f Cons.IH [of u] by simp
  next
    case (QStats cnt min_ts max_ts)
    show ?thesis
    proof (cases "cnt = 0")
      case True
      let ?u = "if where_sql = [] then Some (cnt, min_ts, max_ts) else u"
      have "try_filters q table cols dur ?u fs = Inr (Some (n, a, b), None)"
        using Cons.prems f QStats True by (cases "where_sql = []") (simp_all add: Let_def)
      then have "?u = Some (n, a, b) \<or> n = 0" by (rule Cons.IH)
      then show ?thesis using True by (auto split: if_splits)
    next
      case False
      then show ?thesis using Cons.prems f QStats by (simp add: Let_def)
    qed
  qed
qed

lemma perfetto_unfiltered_decides:
  assumes "trace_exists env" "tables env = Returns tbls" "tbls \<noteq> []"
    "table_cols env (choose_table tbls) = Returns cols"
    "\<forall>f \<in> set (butlast (build_filters cols layer_hint layer_candidates (strip target_pkg))).
        yields_nothing (tp_stats env) (choose_table tbls) cols f"
    "tp_stats env (query_sql (choose_table tbls) cols []) = QStats cnt0 min_ts max_ts"
  shows "perfetto_fps_from_trace env target_pkg dur layer_hint layer_candidates =
           (if cnt0 > 0
            then Inr (Some (fst (fps_of_stats (choose_table tbls) ''unfiltered'' dur cnt0 min_ts max_ts)),
                      snd (fps_of_stats (choose_table tbls) ''unfiltered'' dur cnt0 min_ts max_ts))
            else Inr (None, ZeroCountDetail 0))"
proof -
  let ?fs = "build_filters cols layer_hint layer_candidates (strip target_pkg)"
  have "try_filters (tp_stats env) (choose_table tbls) cols dur None ?fs =
        try_filters (tp_stats env) (choose_table tbls) cols dur None (butlast ?fs @ [unfiltered])"
    using build_filters_shape(1) [of cols layer_hint layer_candidates "strip target_pkg"]
    by simp
  also have "\<dots> = try_filters (tp_stats env) (choose_table tbls) cols dur None [unfiltered]"
    using assms(5) build_filters_shape(2) by (intro try_filters_skip_keep) blast
  finally have "try_filters (tp_stats env) (choose_table tbls) cols dur None ?fs =
           (if cnt0 > 0
            then Inr (Some (cnt0, min_ts, max_ts),
                      Some (fps_of_stats (choose_table tbls) ''unfiltered'' dur cnt0 min_ts max_ts))
            else Inr (Some (cnt0, min_ts, max_ts), None))"
    using try_filters_unfiltered [of "tp_stats env" "choose_table tbls" cols
        cnt0 min_ts max_ts dur] assms(6) by simp
  then show ?thesis
    using assms(1,2,3,4)
    by (simp add: perfetto_fps_from_trace_def Let_def split_beta)
qed

lemma perfetto_zero_count_detail:
  assumes "perfetto_fps_from_trace env target_pkg dur layer_hint layer_candidates =
             Inr (None, ZeroCountDetail n)"
  shows "n = 0"
proof -
  obtain tbls cols a b where
    "try_filters (tp_stats env) (choose_table tbls) cols dur None
       (build_filters cols layer_hint layer_candidates (strip target_pkg)) =
     Inr (Some (n, a, b), None)"
    using assms
    by (auto simp: perfetto_fps_from_trace_def Let_def
        split: if_splits prod.splits option.splits sum.splits outcome.splits)
  then have "None = Some (n, a, b) \<or> n = 0" by (rule try_filters_none_zero)
  then show ?thesis by simp
qed

text \<open>
  C3 (as amended). When every filter before the unfiltered one answers with no count and
  the unfiltered query counts \<open>cnt0\<close> frames, the function returns the rate computed from
  the unfiltered count if \<open>cnt0 > 0\<close>, and no rate with the zero-count diagnostic if
  \<open>cnt0 = 0\<close>; the count that diagnostic reports is always 0.
\<close>

theorem unfiltered_count_decides:
  "(trace_exists env \<and> tables env = Returns tbls \<and> tbls \<noteq> [] \<and>
    table_cols env (choose_table tbls) = Returns cols \<and>
    (\<forall>f \<in> set (butlast (build_filters cols layer_hint layer_candidates (strip target_pkg))).
        yields_nothing (tp_stats env) (choose_table tbls) cols f) \<and>
    tp_stats env (query_sql (choose_table tbls) cols []) = QStats cnt0 min_ts max_ts
      \<longrightarrow> perfetto_fps_from_trace env target_pkg dur layer_hint layer_candidates =
           (if cnt0 > 0
            then Inr (Some (fst (fps_of_stats (choose_table tbls) ''unfiltered'' dur cnt0 min_ts max_ts)),
                      snd (fps_of_stats (choose_table tbls) ''unfiltered'' dur cnt0 min_ts max_ts))
            else Inr (None, ZeroCountDetail 0))) \<and>
   (perfetto_fps_from_trace env target_pkg dur layer_hint layer_candidates = Inr (None, ZeroCountDetail n)
      \<longrightarrow> n = 0)"
  using perfetto_unfiltered_decides perfetto_zero_count_detail by blast

lemma unfiltered_40_premises:
  "trace_exists (trace_with stats_unfiltered_40) \<and>
   tables (trace_with stats_unfiltered_40) = Returns [example_table] \<and> [example_table] \<noteq> [] \<and>
   table_cols (trace_with stats_unfiltered_40) (choose_table [example_table]) = Returns frame_cols \<and>
   (\<forall>f \<in> set (butlast (build_filters frame_cols (Some []) [example_layer] (strip ''pkg''))).
       yields_nothing (tp_stats (trace_with stats_unfiltered_40)) (choose_table [example_table])
         frame_cols f) \<and>
   tp_stats (trace_with stats_unfiltered_40) (query_sql (choose_table [example_table]) frame_cols []) =
     QStats 40 1000000000 2000000000"
  unfolding example_chosen
  using example_sqls
  by (simp add: example_filters yields_nothing_def stats_unfiltered_40_def trace_with_simps)

text \<open>
  With zero rows for every layer filter and 40 rows without a filter, the function returns
  a rate of 40 frames per second, from the unfiltered count.
\<close>

theorem unfiltered_count_used_counterexample:
  "perfetto_fps_from_trace (trace_with stats_unfiltered_40) ''pkg'' 1500 (Some []) [example_layer] =
     Inr (Some 40, SpanDetail example_table ''unfiltered'' 40 1000)"
  using perfetto_unfiltered_decides [where env = "trace_with stats_unfiltered_40"
      and tbls = "[example_table]" and cols = frame_cols and target_pkg = "''pkg''" and dur = 1500
      and layer_hint = "Some []" and layer_candidates = "[example_layer]"
      and ?cnt0.0 = 40 and min_ts = 1000000000 and max_ts = 2000000000] unfiltered_40_premises
  unfolding example_chosen by (simp add: fps_40)

theorem unfiltered_count_decides_witness:
  "perfetto_fps_from_trace (trace_with stats_all_zero) ''pkg'' 1500 (Some []) [example_layer] =
     Inr (None, ZeroCountDetail 0) \<and>
   perfetto_fps_from_trace (trace_with stats_unfiltered_40) ''pkg'' 1500 (Some []) [example_layer] =
     Inr (Some 40, SpanDetail example_table ''unfiltered'' 40 1000)"
proof -
  let ?z = "trace_with stats_all_zero"
  let ?u = "trace_with stats_unfiltered_40"
  have prez: "trace_exists ?z \<and> tables ?z = Returns [example_table] \<and> [example_table] \<noteq> [] \<and>
    table_cols ?z (choose_table [example_table]) = Returns frame_cols \<and>
    (\<forall>f \<in> set (butlast (build_filters frame_cols (Some []) [example_layer] (strip ''pkg''))).
        yields_nothing (tp_stats ?z) (choose_table [example_table]) frame_cols f) \<and>
    tp_stats ?z (query_sql (choose_table [example_table]) frame_cols []) = QStats 0 0 0"
    unfolding example_chosen
    by (simp add: example_filters yields_nothing_def stats_all_zero_def trace_with_simps)
  have z: "perfetto_fps_from_trace ?z ''pkg'' 1500 (Some []) [example_layer] =
     Inr (None, ZeroCountDetail 0)"
    using unfiltered_count_decides [where env = ?z and target_pkg = "''pkg''" and dur = 1500
        and tbls = "[example_table]" and cols = frame_cols
        and layer_hint = "Some []" and layer_candidates = "[example_layer]"
        and ?cnt0.0 = 0 and min_ts = 0 and max_ts = 0] prez
    by simp
  have u: "perfetto_fps_from_trace ?u ''pkg'' 1500 (Some []) [example_layer] =
     Inr (Some 40, SpanDetail example_table ''unfiltered'' 40 1000)"
    using unfiltered_count_decides [where env = ?u and target_pkg = "''pkg''" and dur = 1500
        and tbls = "[example_table]" and cols = frame_cols
        and layer_hint = "Some []" and layer_candidates = "[example_layer]"
        and ?cnt0.0 = 40 and min_ts = 1000000000 and max_ts = 2000000000] unfiltered_40_premises
    unfolding example_chosen by (simp add: fps_40)
  show ?thesis using z u by simp
qed

end
